theory Spec2Isabelle
  imports Complex_Main "HOL-Library.Sublist"
begin

section \<open>CityFix: the report store and its backend collaborators\<close>

text \<open>
  A shallow embedding of \<^verbatim>\<open>src/contexts/ReportContext.tsx\<close>, \<^verbatim>\<open>src/lib/issues.ts\<close> and
  the storage helper \<^verbatim>\<open>uploadImage\<close>.

  TypeScript's unions of string literals (\<^verbatim>\<open>ReportCategory\<close>, \<^verbatim>\<open>ReportStatus\<close>,
  \<^verbatim>\<open>ReportSeverity\<close>, \<^verbatim>\<open>IssueCategory\<close>, ...) are erased when the program runs: the
  values are strings, the \<^verbatim>\<open>switch\<close> statements have \<^verbatim>\<open>default\<close> branches, the
  guards of \<^verbatim>\<open>updateReport\<close> test strings for truthiness, and \<^verbatim>\<open>fetchReports\<close> moves a
  remote category into a local field through an \<^verbatim>\<open>as\<close> cast. These fields are therefore
  \<^typ>\<open>string\<close>s here, and each union is the list of its literals.

  A JavaScript \<^verbatim>\<open>number\<close> that counts votes is an \<^typ>\<open>int\<close>; a coordinate, which the code
  only copies, is a \<^typ>\<open>real\<close>. A timestamp is the string the code stores.
\<close>

subsection \<open>The two vocabularies\<close>

type_synonym ReportCategory = string
type_synonym ReportStatus = string
type_synonym ReportSeverity = string
type_synonym IssueStatus = string
type_synonym IssuePriority = string
type_synonym IssueCategory = string

definition ReportCategory_values :: "ReportCategory list" where
  "ReportCategory_values =
     [''pothole'', ''streetlight'', ''garbage'', ''graffiti'',
      ''road_damage'', ''flooding'', ''sign_damage'', ''other'']"

definition ReportStatus_values :: "ReportStatus list" where
  "ReportStatus_values =
     [''reported'', ''under_review'', ''in_progress'', ''resolved'', ''closed'']"

definition ReportSeverity_values :: "ReportSeverity list" where
  "ReportSeverity_values = [''low'', ''medium'', ''high'']"

definition IssueStatus_values :: "IssueStatus list" where
  "IssueStatus_values = [''reported'', ''in_progress'', ''resolved'', ''closed'']"

definition IssuePriority_values :: "IssuePriority list" where
  "IssuePriority_values = [''low'', ''medium'', ''high'', ''critical'']"

definition IssueCategory_values :: "IssueCategory list" where
  "IssueCategory_values = [''road'', ''water'', ''electricity'', ''waste'', ''other'']"

text \<open>
  \<^verbatim>\<open>reportCategoryToIssueCategory\<close>: the \<^verbatim>\<open>switch\<close> compares with \<^verbatim>\<open>===\<close>, cases that
  fall through share a \<^verbatim>\<open>return\<close>, and \<^verbatim>\<open>default\<close> returns \<^verbatim>\<open>'other'\<close>.
\<close>

definition reportCategoryToIssueCategory :: "ReportCategory \<Rightarrow> IssueCategory" where
  "reportCategoryToIssueCategory category =
     (if category = ''pothole'' \<or> category = ''road_damage'' then ''road''
      else if category = ''streetlight'' then ''electricity''
      else if category = ''garbage'' \<or> category = ''flooding'' \<or> category = ''sign_damage''
        then ''waste''
      else if category = ''graffiti'' then ''other''
      else if category = ''other'' then ''other''
      else ''other'')"

text \<open>\<^verbatim>\<open>reportSeverityToPriority\<close>: \<^verbatim>\<open>default\<close> returns \<^verbatim>\<open>'medium'\<close>.\<close>

definition reportSeverityToPriority :: "ReportSeverity \<Rightarrow> IssuePriority" where
  "reportSeverityToPriority severity =
     (if severity = ''low'' then ''low''
      else if severity = ''medium'' then ''medium''
      else if severity = ''high'' then ''high''
      else ''medium'')"

subsection \<open>The local shapes (\<^verbatim>\<open>ReportContext.tsx\<close>)\<close>

text \<open>
  \<^verbatim>\<open>Omit<Report, ...>\<close> and \<^verbatim>\<open>Omit<ReportComment, ...>\<close> are the records that the full
  shapes extend. A field whose source name is taken in Isabelle or by another record carries
  a prefix: \<open>report_id\<close> is \<^verbatim>\<open>Report.id\<close>, \<open>comment_text\<close> is \<^verbatim>\<open>ReportComment.text\<close>,
  \<open>ref_id\<close> and \<open>ref_name\<close> are the \<^verbatim>\<open>{id, name}\<close> of \<^verbatim>\<open>reportedBy\<close> and
  \<^verbatim>\<open>assignedTo\<close>. A parameter that the source calls \<^verbatim>\<open>id\<close> is \<open>id'\<close>.
\<close>

record Coordinates =
  lat :: real
  lng :: real

record Location =
  address :: string
  coordinates :: Coordinates

record UserRef =
  ref_id :: string
  ref_name :: string

text \<open>
  The author of a comment. The interface declares \<^verbatim>\<open>id\<close> and \<^verbatim>\<open>name\<close> as strings; in an
  author that \<^verbatim>\<open>getReportById\<close> builds from a fetched row they are what the joined profile
  holds under these names, which may be nothing (\<^verbatim>\<open>undefined\<close>, here \<open>None\<close>).
\<close>

record CommentUser =
  cu_id :: "string option"
  cu_name :: "string option"
  role :: string

record CommentData =
  comment_text :: string
  user :: CommentUser

record ReportComment = CommentData +
  comment_id :: string
  comment_createdAt :: string

record ReportDraft =
  title :: string
  description :: string
  category :: ReportCategory
  location :: Location
  images :: "string list"
  status :: ReportStatus
  severity :: ReportSeverity
  reportedBy :: UserRef
  assignedTo :: "UserRef option"

record Report = ReportDraft +
  report_id :: string
  createdAt :: string
  updatedAt :: string
  upvotes :: int
  upvotedBy :: "string list"
  comments :: "ReportComment list"

text \<open>
  \<^verbatim>\<open>Partial<Report>\<close>: every property of \<^verbatim>\<open>Report\<close>, optional. A property of such an
  object is absent, or present with the value \<^verbatim>\<open>undefined\<close>, or present with a value of the
  field's type. Reading the property gives \<^verbatim>\<open>undefined\<close> (\<open>None\<close>) in the first two cases;
  a spread copies the property in the last two.
\<close>

datatype 'a property = Absent | Undefined | Value 'a

definition read :: "'a property \<Rightarrow> 'a option" where
  "read p = (case p of Absent \<Rightarrow> None | Undefined \<Rightarrow> None | Value v \<Rightarrow> Some v)"

record ReportUpdates =
  upd_id :: "string property"
  upd_title :: "string property"
  upd_description :: "string property"
  upd_category :: "ReportCategory property"
  upd_location :: "Location property"
  upd_images :: "string list property"
  upd_status :: "ReportStatus property"
  upd_severity :: "ReportSeverity property"
  upd_reportedBy :: "UserRef property"
  upd_createdAt :: "string property"
  upd_updatedAt :: "string property"
  upd_upvotes :: "int property"
  upd_upvotedBy :: "string list property"
  upd_comments :: "ReportComment list property"
  upd_assignedTo :: "UserRef property"

text \<open>
  The object \<^verbatim>\<open>{ ...report, ...updates, updatedAt }\<close> that \<^verbatim>\<open>updateReport\<close> puts into the
  collection: it has the properties of a report, and each of them holds a value or, after a
  spread of a property that is present as \<^verbatim>\<open>undefined\<close>, nothing (\<open>None\<close>).
\<close>

record ReportObject =
  obj_title :: "string option"
  obj_description :: "string option"
  obj_category :: "ReportCategory option"
  obj_location :: "Location option"
  obj_images :: "string list option"
  obj_status :: "ReportStatus option"
  obj_severity :: "ReportSeverity option"
  obj_reportedBy :: "UserRef option"
  obj_assignedTo :: "UserRef option"
  obj_id :: "string option"
  obj_createdAt :: "string option"
  obj_updatedAt :: "string option"
  obj_upvotes :: "int option"
  obj_upvotedBy :: "string list option"
  obj_comments :: "ReportComment list option"

subsection \<open>The remote shapes (\<^verbatim>\<open>lib/supabase.ts\<close>)\<close>

record IssueLocation =
  latitude :: real
  longitude :: real
  issue_address :: string

text \<open>\<^verbatim>\<open>Omit<Issue, 'id' | 'created_at' | 'updated_at' | 'votes'>\<close>, then \<^verbatim>\<open>Issue\<close>.\<close>

record IssueInsert =
  issue_title :: string
  issue_description :: string
  issue_status :: IssueStatus
  priority :: IssuePriority
  issue_category :: IssueCategory
  issue_location :: IssueLocation
  issue_images :: "string list"
  user_id :: string
  assigned_to :: "string option"
  resolution_notes :: "string option"

record Issue = IssueInsert +
  issue_id :: string
  created_at :: string
  updated_at :: string
  votes :: int

text \<open>
  The object \<^verbatim>\<open>supabaseUpdates\<close> that \<^verbatim>\<open>updateReport\<close> fills: it starts as \<^verbatim>\<open>{}\<close> and
  gets a property for each guard that passes.
\<close>

record IssueUpdate =
  patch_title :: "string option"
  patch_description :: "string option"
  patch_category :: "IssueCategory option"
  patch_priority :: "IssuePriority option"
  patch_location :: "IssueLocation option"
  patch_images :: "string list option"
  patch_status :: "string option"

text \<open>
  \<^verbatim>\<open>Omit<IssueComment, 'id' | 'created_at' | 'updated_at'>\<close>, then \<^verbatim>\<open>IssueComment\<close>. The
  \<^verbatim>\<open>user_id\<close> that \<^verbatim>\<open>addComment\<close> sends is the \<^verbatim>\<open>id\<close> of the comment's author.
\<close>

record IssueCommentInsert =
  c_issue_id :: string
  c_user_id :: "string option"
  content :: string

record IssueComment = IssueCommentInsert +
  c_id :: string
  c_created_at :: string
  c_updated_at :: string

text \<open>
  A row of \<^verbatim>\<open>getComments\<close>: the query selects every column of the comment and, under
  \<^verbatim>\<open>user\<close>, the joined profile with the columns \<^verbatim>\<open>name\<close> and \<^verbatim>\<open>avatar_url\<close>. The joined
  profile is an object, given by its properties and their values, or \<^verbatim>\<open>null\<close> (\<open>None\<close>) when
  the comment has no profile to join. Reading a property that the object does not have gives
  \<^verbatim>\<open>undefined\<close> (\<open>None\<close>).
\<close>

type_synonym Profile = "(string \<times> string) list"

definition profile_get :: "Profile \<Rightarrow> string \<Rightarrow> string option" where
  "profile_get obj name = map_of obj name"

definition selected_columns :: "Profile \<Rightarrow> bool" where
  "selected_columns obj = list_all (\<lambda>(name, v). name = ''name'' \<or> name = ''avatar_url'') obj"

record IssueCommentRow = IssueComment +
  c_user :: "Profile option"

subsection \<open>Errors and the backend\<close>

text \<open>
  A thrown value is \<open>Error m\<close> for \<^verbatim>\<open>new Error(m)\<close>, \<open>PostgrestError m\<close> for the error object
  of a table or procedure call, \<open>StorageError m\<close> for the error object of a storage upload,
  and \<open>TypeError name\<close> for the error of reading the property \<open>name\<close> of \<^verbatim>\<open>null\<close>.
\<close>

datatype error =
  Error string | PostgrestError string | StorageError string | TypeError string

text \<open>
  The client library answers with \<^verbatim>\<open>{data, error}\<close>, where exactly one of the two is set.
\<close>

datatype 'a PostgrestResponse = PostgrestSuccess 'a | PostgrestFailure error

text \<open>
  The backend is a collaborator: a value of \<open>Supabase\<close> gives its answer to each query the
  code builds, at the moment of one operation. \<open>issues_select\<close> takes the \<^verbatim>\<open>.eq\<close> filters as
  pairs of column and value.
\<close>

record Supabase =
  issues_insert :: "IssueInsert \<Rightarrow> Issue PostgrestResponse"
  issues_select :: "(string \<times> string) list \<Rightarrow> Issue list PostgrestResponse"
  issues_update :: "string \<Rightarrow> IssueUpdate \<Rightarrow> Issue PostgrestResponse"
  issues_delete :: "string \<Rightarrow> unit PostgrestResponse"
  rpc_vote_on_issue :: "string \<Rightarrow> string \<Rightarrow> unit PostgrestResponse"
  issue_comments_insert :: "IssueCommentInsert \<Rightarrow> IssueComment PostgrestResponse"
  issue_comments_select :: "string \<Rightarrow> IssueCommentRow list PostgrestResponse"

subsection \<open>\<^verbatim>\<open>lib/issues.ts\<close>\<close>

text \<open>Each function ends with \<^verbatim>\<open>if (error) throw error; return data;\<close>.\<close>

definition throw_or_data :: "'a PostgrestResponse \<Rightarrow> error + 'a" where
  "throw_or_data response =
     (case response of PostgrestFailure e \<Rightarrow> Inl e | PostgrestSuccess d \<Rightarrow> Inr d)"

definition createIssue :: "Supabase \<Rightarrow> IssueInsert \<Rightarrow> error + Issue" where
  "createIssue supabase issue = throw_or_data (issues_insert supabase issue)"

record IssueFilters =
  filter_status :: "IssueStatus option"
  filter_category :: "IssueCategory option"
  filter_priority :: "IssuePriority option"
  filter_userId :: "string option"

text \<open>A guard such as \<^verbatim>\<open>if (filters?.status)\<close> passes for a string that is present and not empty.\<close>

definition truthy :: "string option \<Rightarrow> bool" where
  "truthy v = (case v of None \<Rightarrow> False | Some s \<Rightarrow> s \<noteq> [])"

definition eq_filter :: "string \<Rightarrow> string option \<Rightarrow> (string \<times> string) list" where
  "eq_filter column v = (case v of Some s \<Rightarrow> if truthy v then [(column, s)] else [] | None \<Rightarrow> [])"

definition getIssues :: "Supabase \<Rightarrow> IssueFilters option \<Rightarrow> error + Issue list" where
  "getIssues supabase filters =
     throw_or_data (issues_select supabase
       (case filters of
          None \<Rightarrow> []
        | Some f \<Rightarrow>
            eq_filter ''status'' (filter_status f) @ eq_filter ''category'' (filter_category f) @
            eq_filter ''priority'' (filter_priority f) @ eq_filter ''user_id'' (filter_userId f)))"

definition updateIssue :: "Supabase \<Rightarrow> string \<Rightarrow> IssueUpdate \<Rightarrow> error + Issue" where
  "updateIssue supabase id' updates = throw_or_data (issues_update supabase id' updates)"

definition deleteIssue :: "Supabase \<Rightarrow> string \<Rightarrow> error + unit" where
  "deleteIssue supabase id' = throw_or_data (issues_delete supabase id')"

definition voteOnIssue :: "Supabase \<Rightarrow> string \<Rightarrow> string \<Rightarrow> error + unit" where
  "voteOnIssue supabase id' userId = throw_or_data (rpc_vote_on_issue supabase id' userId)"

definition createComment :: "Supabase \<Rightarrow> IssueCommentInsert \<Rightarrow> error + IssueComment" where
  "createComment supabase comment = throw_or_data (issue_comments_insert supabase comment)"

definition getComments :: "Supabase \<Rightarrow> string \<Rightarrow> error + IssueCommentRow list" where
  "getComments supabase issueId = throw_or_data (issue_comments_select supabase issueId)"

subsection \<open>The report store (\<^verbatim>\<open>ReportProvider\<close>)\<close>

text \<open>
  The provider's state: the \<^verbatim>\<open>reports\<close> and \<^verbatim>\<open>isLoading\<close> of \<^verbatim>\<open>useState\<close>, and what
  \<^verbatim>\<open>console.error\<close> has printed (the label and the error). An operation takes the backend's
  answers and, where it reads the clock, the string \<^verbatim>\<open>new Date().toISOString()\<close> gives;
  it returns what the caller of the \<^verbatim>\<open>async\<close> function gets (\<open>Inl\<close> for a rejection) and
  the state after it. One operation runs at a time. The collection holds reports; after
  \<^verbatim>\<open>updateReport\<close> it holds the objects that the spread built, which are reports again when
  every property has a value.
\<close>

record 'r StoreOf =
  reports :: "'r list"
  isLoading :: bool
  console :: "(string \<times> error) list"

type_synonym Store = "Report StoreOf"

definition initial_store :: Store where
  "initial_store = \<lparr>reports = [], isLoading = True, console = []\<rparr>"

definition listReports :: "Store \<Rightarrow> Report list" where
  "listReports st = reports st"

text \<open>\<^verbatim>\<open>x || 0\<close> on a number.\<close>

definition or_zero :: "int \<Rightarrow> int" where
  "or_zero v = (if v = 0 then 0 else v)"

text \<open>\<^verbatim>\<open>a ? {id: a, name: 'Anonymous'} : undefined\<close> on an optional string.\<close>

definition anonymous_assignee :: "string option \<Rightarrow> UserRef option" where
  "anonymous_assignee a =
     (case a of
        None \<Rightarrow> None
      | Some s \<Rightarrow> if truthy a then Some \<lparr>ref_id = s, ref_name = ''Anonymous''\<rparr> else None)"

text \<open>
  The function that \<^verbatim>\<open>fetchReports\<close> maps over the fetched issues. The category, the status
  and the priority are copied under an \<^verbatim>\<open>as\<close> cast, which does nothing when the program
  runs. \<^verbatim>\<open>issue.images || []\<close> is the array itself, an array being truthy.
\<close>

definition formatReport :: "Issue \<Rightarrow> Report" where
  "formatReport issue =
     \<lparr>title = issue_title issue,
      description = issue_description issue,
      category = issue_category issue,
      location =
        \<lparr>address = issue_address (issue_location issue),
         coordinates =
           \<lparr>lat = latitude (issue_location issue), lng = longitude (issue_location issue)\<rparr>\<rparr>,
      images = issue_images issue,
      status = issue_status issue,
      severity = priority issue,
      reportedBy = \<lparr>ref_id = user_id issue, ref_name = ''Anonymous''\<rparr>,
      assignedTo = anonymous_assignee (assigned_to issue),
      report_id = issue_id issue,
      createdAt = created_at issue,
      updatedAt = updated_at issue,
      upvotes = or_zero (votes issue),
      upvotedBy = [],
      comments = []\<rparr>"

definition fetchReports :: "Supabase \<Rightarrow> Store \<Rightarrow> Store" where
  "fetchReports supabase st =
     (case getIssues supabase None of
        Inr issues \<Rightarrow> st\<lparr>reports := map formatReport issues, isLoading := False\<rparr>
      | Inl e \<Rightarrow>
          st\<lparr>console := console st @ [(''Error fetching reports:'', e)], isLoading := False\<rparr>)"

text \<open>The callback given to \<^verbatim>\<open>subscribeToIssues\<close>: any change notification refetches.\<close>

definition on_issues_change :: "Supabase \<Rightarrow> Store \<Rightarrow> Store" where
  "on_issues_change supabase st = fetchReports supabase st"

text \<open>The object \<^verbatim>\<open>supabaseIssue\<close> of \<^verbatim>\<open>addReport\<close>.\<close>

definition supabaseIssue :: "ReportDraft \<Rightarrow> IssueInsert" where
  "supabaseIssue report =
     \<lparr>issue_title = title report,
      issue_description = description report,
      issue_status = (if status report = ''under_review'' then ''reported'' else status report),
      priority = reportSeverityToPriority (severity report),
      issue_category = reportCategoryToIssueCategory (category report),
      issue_location =
        \<lparr>latitude = lat (coordinates (location report)),
         longitude = lng (coordinates (location report)),
         issue_address = address (location report)\<rparr>,
      issue_images = images report,
      user_id = ref_id (reportedBy report),
      assigned_to = None,
      resolution_notes = None\<rparr>"

definition newReport :: "ReportDraft \<Rightarrow> Issue \<Rightarrow> Report" where
  "newReport report createdIssue =
     \<lparr>title = issue_title createdIssue,
      description = issue_description createdIssue,
      category = category report,
      location =
        \<lparr>address = issue_address (issue_location createdIssue),
         coordinates =
           \<lparr>lat = latitude (issue_location createdIssue),
            lng = longitude (issue_location createdIssue)\<rparr>\<rparr>,
      images = issue_images createdIssue,
      status = issue_status createdIssue,
      severity = severity report,
      reportedBy = reportedBy report,
      assignedTo = anonymous_assignee (assigned_to createdIssue),
      report_id = issue_id createdIssue,
      createdAt = created_at createdIssue,
      updatedAt = updated_at createdIssue,
      upvotes = or_zero (votes createdIssue),
      upvotedBy = [],
      comments = []\<rparr>"

definition addReport :: "Supabase \<Rightarrow> ReportDraft \<Rightarrow> Store \<Rightarrow> (error + Report) \<times> Store" where
  "addReport supabase report st =
     (case createIssue supabase (supabaseIssue report) of
        Inl e \<Rightarrow> (Inl e, st)
      | Inr createdIssue \<Rightarrow>
          (Inr (newReport report createdIssue),
           st\<lparr>reports := reports st @ [newReport report createdIssue]\<rparr>))"

text \<open>
  The object \<^verbatim>\<open>supabaseUpdates\<close> of \<^verbatim>\<open>updateReport\<close>. Each guard reads a property of
  \<^verbatim>\<open>updates\<close> and tests it for truthiness: a string passes when it is there and not empty, an
  array or an object when it is there, also an empty array. A property whose guard fails is
  not assigned (\<open>None\<close>).
\<close>

definition supabaseUpdates :: "ReportUpdates \<Rightarrow> IssueUpdate" where
  "supabaseUpdates updates =
     \<lparr>patch_title =
        (if truthy (read (upd_title updates)) then read (upd_title updates) else None),
      patch_description =
        (if truthy (read (upd_description updates)) then read (upd_description updates)
         else None),
      patch_category =
        (if truthy (read (upd_category updates))
         then map_option reportCategoryToIssueCategory (read (upd_category updates)) else None),
      patch_priority =
        (if truthy (read (upd_severity updates))
         then map_option reportSeverityToPriority (read (upd_severity updates)) else None),
      patch_location =
        map_option
          (\<lambda>l. \<lparr>latitude = lat (coordinates l), longitude = lng (coordinates l),
                 issue_address = address l\<rparr>)
          (read (upd_location updates)),
      patch_images = read (upd_images updates),
      patch_status =
        (if truthy (read (upd_status updates)) then read (upd_status updates) else None)\<rparr>"

text \<open>
  \<^verbatim>\<open>{ ...report, ...updates }\<close>: a property that \<^verbatim>\<open>updates\<close> has replaces the report's, also
  when its value is \<^verbatim>\<open>undefined\<close>; a property that \<^verbatim>\<open>updates\<close> lacks leaves the report's.
\<close>

definition spread :: "'a option \<Rightarrow> 'a property \<Rightarrow> 'a option" where
  "spread old p = (case p of Absent \<Rightarrow> old | Undefined \<Rightarrow> None | Value v \<Rightarrow> Some v)"

definition object_of :: "Report \<Rightarrow> ReportObject" where
  "object_of report =
     \<lparr>obj_title = Some (title report),
      obj_description = Some (description report),
      obj_category = Some (category report),
      obj_location = Some (location report),
      obj_images = Some (images report),
      obj_status = Some (status report),
      obj_severity = Some (severity report),
      obj_reportedBy = Some (reportedBy report),
      obj_assignedTo = assignedTo report,
      obj_id = Some (report_id report),
      obj_createdAt = Some (createdAt report),
      obj_updatedAt = Some (updatedAt report),
      obj_upvotes = Some (upvotes report),
      obj_upvotedBy = Some (upvotedBy report),
      obj_comments = Some (comments report)\<rparr>"

definition spread_updates :: "Report \<Rightarrow> ReportUpdates \<Rightarrow> ReportObject" where
  "spread_updates report updates =
     \<lparr>obj_title = spread (Some (title report)) (upd_title updates),
      obj_description = spread (Some (description report)) (upd_description updates),
      obj_category = spread (Some (category report)) (upd_category updates),
      obj_location = spread (Some (location report)) (upd_location updates),
      obj_images = spread (Some (images report)) (upd_images updates),
      obj_status = spread (Some (status report)) (upd_status updates),
      obj_severity = spread (Some (severity report)) (upd_severity updates),
      obj_reportedBy = spread (Some (reportedBy report)) (upd_reportedBy updates),
      obj_assignedTo = spread (assignedTo report) (upd_assignedTo updates),
      obj_id = spread (Some (report_id report)) (upd_id updates),
      obj_createdAt = spread (Some (createdAt report)) (upd_createdAt updates),
      obj_updatedAt = spread (Some (updatedAt report)) (upd_updatedAt updates),
      obj_upvotes = spread (Some (upvotes report)) (upd_upvotes updates),
      obj_upvotedBy = spread (Some (upvotedBy report)) (upd_upvotedBy updates),
      obj_comments = spread (Some (comments report)) (upd_comments updates)\<rparr>"

text \<open>The state with its reports seen as objects.\<close>

definition as_objects :: "Store \<Rightarrow> ReportObject StoreOf" where
  "as_objects st =
     \<lparr>reports = map object_of (reports st), isLoading = isLoading st, console = console st\<rparr>"

text \<open>
  \<^verbatim>\<open>updateReport\<close>: the remote update first; then every report with the id is replaced by the
  spread, with \<^verbatim>\<open>updatedAt\<close> set last.
\<close>

definition updateReport ::
  "Supabase \<Rightarrow> string \<Rightarrow> string \<Rightarrow> ReportUpdates \<Rightarrow> Store \<Rightarrow>
   (error + unit) \<times> ReportObject StoreOf" where
  "updateReport supabase now id' updates st =
     (case updateIssue supabase id' (supabaseUpdates updates) of
        Inl e \<Rightarrow> (Inl e, as_objects st)
      | Inr _ \<Rightarrow>
          (Inr (),
           \<lparr>reports =
              map (\<lambda>report.
                     if report_id report = id'
                     then (spread_updates report updates)\<lparr>obj_updatedAt := Some now\<rparr>
                     else object_of report)
                  (reports st),
            isLoading = isLoading st,
            console = console st\<rparr>))"

text \<open>
  An object whose properties all have values is a report (\<^verbatim>\<open>assignedTo\<close> is optional in a
  report as well); the collection is a collection of reports when each of its objects is.
\<close>

definition report_of :: "ReportObject \<Rightarrow> Report option" where
  "report_of obj =
     (case (obj_title obj, obj_description obj, obj_category obj, obj_location obj,
            obj_images obj, obj_status obj, obj_severity obj, obj_reportedBy obj) of
        (Some t, Some d, Some c, Some l, Some im, Some s, Some sv, Some rb) \<Rightarrow>
          (case (obj_id obj, obj_createdAt obj, obj_updatedAt obj, obj_upvotes obj,
                 obj_upvotedBy obj, obj_comments obj) of
             (Some i, Some ca, Some ua, Some uv, Some ub, Some cs) \<Rightarrow>
               Some \<lparr>title = t, description = d, category = c, location = l, images = im,
                     status = s, severity = sv, reportedBy = rb,
                     assignedTo = obj_assignedTo obj, report_id = i, createdAt = ca,
                     updatedAt = ua, upvotes = uv, upvotedBy = ub, comments = cs\<rparr>
           | _ \<Rightarrow> None)
      | _ \<Rightarrow> None)"

definition deleteReport :: "Supabase \<Rightarrow> string \<Rightarrow> Store \<Rightarrow> (error + unit) \<times> Store" where
  "deleteReport supabase id' st =
     (case deleteIssue supabase id' of
        Inl e \<Rightarrow> (Inl e, st)
      | Inr _ \<Rightarrow>
          (Inr (), st\<lparr>reports := filter (\<lambda>report. report_id report \<noteq> id') (reports st)\<rparr>))"

text \<open>
  \<^verbatim>\<open>getReportById\<close>: \<^verbatim>\<open>reports.find\<close> gives the first report with the id. Inside the
  \<^verbatim>\<open>try\<close> the comments are fetched and each row is mapped; the mapping reads \<^verbatim>\<open>id\<close>,
  \<^verbatim>\<open>name\<close> and \<^verbatim>\<open>role\<close> of \<^verbatim>\<open>comment.user\<close>, the \<^verbatim>\<open>id\<close> first, so a row whose joined
  profile is \<^verbatim>\<open>null\<close> throws a \<^verbatim>\<open>TypeError\<close>. The role is \<^verbatim>\<open>comment.user.role || 'citizen'\<close>.
  The \<^verbatim>\<open>catch\<close> takes whatever was thrown, by the fetch or by the mapping: it prints the error
  and returns the local report.
\<close>

definition role_or_citizen :: "string option \<Rightarrow> string" where
  "role_or_citizen r = (case r of None \<Rightarrow> ''citizen'' | Some s \<Rightarrow> if truthy r then s else ''citizen'')"

definition transformComment :: "IssueCommentRow \<Rightarrow> error + ReportComment" where
  "transformComment comment =
     (case c_user comment of
        None \<Rightarrow> Inl (TypeError ''id'')
      | Some profile \<Rightarrow>
          Inr \<lparr>comment_text = content comment,
               user =
                 \<lparr>cu_id = profile_get profile ''id'',
                  cu_name = profile_get profile ''name'',
                  role = role_or_citizen (profile_get profile ''role'')\<rparr>,
               comment_id = c_id comment,
               comment_createdAt = c_created_at comment\<rparr>)"

text \<open>\<^verbatim>\<open>comments.map(...)\<close> with a function that may throw: the first throw ends the map.\<close>

fun transformedComments :: "IssueCommentRow list \<Rightarrow> error + ReportComment list" where
  "transformedComments [] = Inr []"
| "transformedComments (comment # rest) =
     (case transformComment comment of
        Inl e \<Rightarrow> Inl e
      | Inr c \<Rightarrow>
          (case transformedComments rest of
             Inl e \<Rightarrow> Inl e
           | Inr cs \<Rightarrow> Inr (c # cs)))"

definition getReportById :: "Supabase \<Rightarrow> string \<Rightarrow> Store \<Rightarrow> Report option \<times> Store" where
  "getReportById supabase id' st =
     (case find (\<lambda>report. report_id report = id') (reports st) of
        None \<Rightarrow> (None, st)
      | Some report \<Rightarrow>
          (case getComments supabase id' of
             Inl e \<Rightarrow>
               (Some report, st\<lparr>console := console st @ [(''Error fetching comments:'', e)]\<rparr>)
           | Inr fetched \<Rightarrow>
               (case transformedComments fetched of
                  Inl e \<Rightarrow>
                    (Some report,
                     st\<lparr>console := console st @ [(''Error fetching comments:'', e)]\<rparr>)
                | Inr cs \<Rightarrow> (Some (report\<lparr>comments := cs\<rparr>), st))))"

text \<open>A local comment that is the image of a fetched row with a joined profile.\<close>

definition mapped_from :: "IssueCommentRow \<Rightarrow> ReportComment \<Rightarrow> bool" where
  "mapped_from row c =
     (case c_user row of
        None \<Rightarrow> False
      | Some profile \<Rightarrow>
          comment_id c = c_id row \<and>
          comment_text c = content row \<and>
          comment_createdAt c = c_created_at row \<and>
          cu_id (user c) = profile_get profile ''id'' \<and>
          cu_name (user c) = profile_get profile ''name'' \<and>
          role (user c) =
            (case profile_get profile ''role'' of
               None \<Rightarrow> ''citizen''
             | Some r \<Rightarrow> if r = '''' then ''citizen'' else r))"

text \<open>
  \<^verbatim>\<open>upvoteReport\<close>: the \<^verbatim>\<open>try\<close> around \<^verbatim>\<open>voteOnIssue\<close> prints the error and goes on; the
  map over the reports follows in both cases.
\<close>

definition upvote_one :: "string \<Rightarrow> string \<Rightarrow> string \<Rightarrow> Report \<Rightarrow> Report" where
  "upvote_one now id' userId report =
     (if report_id report = id'
      then (if userId \<in> set (upvotedBy report) then report
            else report\<lparr>upvotes := upvotes report + 1,
                        upvotedBy := upvotedBy report @ [userId],
                        updatedAt := now\<rparr>)
      else report)"

definition upvoteReport ::
  "Supabase \<Rightarrow> string \<Rightarrow> string \<Rightarrow> string \<Rightarrow> Store \<Rightarrow> (error + unit) \<times> Store" where
  "upvoteReport supabase now id' userId st =
     (let st1 =
        (case voteOnIssue supabase id' userId of
           Inr _ \<Rightarrow> st
         | Inl e \<Rightarrow> st\<lparr>console := console st @ [(''Error upvoting issue in Supabase:'', e)]\<rparr>)
      in (Inr (), st1\<lparr>reports := map (upvote_one now id' userId) (reports st1)\<rparr>))"

text \<open>
  \<^verbatim>\<open>addComment\<close>: the \<^verbatim>\<open>catch\<close> prints the error and throws it again.
\<close>

definition newComment :: "CommentData \<Rightarrow> IssueComment \<Rightarrow> ReportComment" where
  "newComment commentData comment =
     \<lparr>comment_text = comment_text commentData,
      user = user commentData,
      comment_id = c_id comment,
      comment_createdAt = c_created_at comment\<rparr>"

definition addComment ::
  "Supabase \<Rightarrow> string \<Rightarrow> string \<Rightarrow> CommentData \<Rightarrow> Store \<Rightarrow> (error + unit) \<times> Store" where
  "addComment supabase now reportId commentData st =
     (case createComment supabase
             \<lparr>c_issue_id = reportId, c_user_id = cu_id (user commentData),
              content = comment_text commentData\<rparr> of
        Inr comment \<Rightarrow>
          (Inr (),
           st\<lparr>reports :=
                map (\<lambda>report.
                       if report_id report = reportId
                       then report\<lparr>comments := comments report @ [newComment commentData comment],
                                   updatedAt := now\<rparr>
                       else report)
                    (reports st)\<rparr>)
      | Inl e \<Rightarrow> (Inl e, st\<lparr>console := console st @ [(''Error adding comment:'', e)]\<rparr>))"

subsection \<open>The storage helper \<^verbatim>\<open>uploadImage\<close>\<close>

text \<open>
  Of a browser \<^verbatim>\<open>File\<close> the function reads the name, the MIME type and the size in bytes.
  The storage bucket answers an upload with an error message or with none, and gives a
  public URL for a path. What the function does besides returning is a list of effects, in
  order: an upload request sent to the bucket, or a line printed by \<^verbatim>\<open>console.error\<close>.
  \<open>rnd\<close> is the string \<^verbatim>\<open>Math.random().toString(36).substring(2)\<close> and \<open>stamp\<close> the digits
  of \<^verbatim>\<open>Date.now()\<close>.
\<close>

record File =
  file_name :: string
  file_type :: string
  file_size :: nat

record Storage =
  storage_upload :: "string \<Rightarrow> File \<Rightarrow> string option"
  storage_getPublicUrl :: "string \<Rightarrow> string"

datatype effect = UploadRequest string File | ConsoleError string error

definition maxSize :: real where
  "maxSize = 1.5 * 1024 * 1024"

text \<open>\<^verbatim>\<open>file.name.split('.').pop()\<close>: what follows the last dot, or the whole name.\<close>

definition fileExt :: "string \<Rightarrow> string" where
  "fileExt name = rev (takeWhile (\<lambda>c. c \<noteq> CHR ''.'') (rev name))"

text \<open>The body of the \<^verbatim>\<open>try\<close> block.\<close>

definition uploadImage_try ::
  "Storage \<Rightarrow> string \<Rightarrow> string \<Rightarrow> File \<Rightarrow> string \<Rightarrow> (error + string) \<times> effect list" where
  "uploadImage_try storage rnd stamp file folder =
     (if \<not> prefix ''image/'' (file_type file)
      then (Inl (Error ''Invalid file type. Please upload an image file.''), [])
      else if real (file_size file) > maxSize
      then (Inl (Error ''File size exceeds 1.5MB limit.''), [])
      else
        (let fileName = rnd @ ''-'' @ stamp @ ''.'' @ fileExt (file_name file);
             filePath = folder @ ''/'' @ fileName
         in case storage_upload storage filePath file of
              Some message \<Rightarrow>
                (Inl (Error (''Failed to upload image: '' @ message)),
                 [UploadRequest filePath file,
                  ConsoleError ''Error uploading file:'' (StorageError message)])
            | None \<Rightarrow>
                (let publicUrl = storage_getPublicUrl storage filePath
                 in if publicUrl = []
                    then (Inl (Error ''Failed to get public URL for uploaded image''),
                          [UploadRequest filePath file])
                    else (Inr publicUrl, [UploadRequest filePath file]))))"

text \<open>
  \<^verbatim>\<open>uploadImage\<close>: the \<^verbatim>\<open>catch\<close> prints what was thrown and throws it again; an absent
  \<^verbatim>\<open>folder\<close> is \<^verbatim>\<open>'issues'\<close>.
\<close>

definition uploadImage ::
  "Storage \<Rightarrow> string \<Rightarrow> string \<Rightarrow> File \<Rightarrow> string option \<Rightarrow> (error + string) \<times> effect list" where
  "uploadImage storage rnd stamp file folder =
     (case uploadImage_try storage rnd stamp file
             (case folder of None \<Rightarrow> ''issues'' | Some f \<Rightarrow> f) of
        (Inl e, effects) \<Rightarrow> (Inl e, effects @ [ConsoleError ''Error in uploadImage:'' e])
      | (Inr url, effects) \<Rightarrow> (Inr url, effects))"

text \<open>The upload requests among the effects.\<close>

fun is_upload :: "effect \<Rightarrow> bool" where
  "is_upload (UploadRequest path file) = True"
| "is_upload (ConsoleError label e) = False"

definition network_calls :: "effect list \<Rightarrow> effect list" where
  "network_calls effects = filter is_upload effects"

subsection \<open>Concrete inputs\<close>

text \<open>A bucket that accepts every upload and serves it under one host.\<close>

definition bucket :: Storage where
  "bucket = \<lparr>storage_upload = (\<lambda>p f. None), storage_getPublicUrl = (\<lambda>p. ''https://cdn/'' @ p)\<rparr>"

text \<open>The empty object \<^verbatim>\<open>{}\<close> as a \<^verbatim>\<open>Partial<Report>\<close>.\<close>

definition no_updates :: ReportUpdates where
  "no_updates =
     \<lparr>upd_id = Absent, upd_title = Absent, upd_description = Absent, upd_category = Absent,
      upd_location = Absent, upd_images = Absent, upd_status = Absent, upd_severity = Absent,
      upd_reportedBy = Absent, upd_createdAt = Absent, upd_updatedAt = Absent,
      upd_upvotes = Absent, upd_upvotedBy = Absent, upd_comments = Absent,
      upd_assignedTo = Absent\<rparr>"

text \<open>The second of the source's \<^verbatim>\<open>sampleReports\<close>, as a draft and as a report.\<close>

definition streetlight_draft :: ReportDraft where
  "streetlight_draft =
     \<lparr>title = ''Broken streetlight on Oak Avenue'',
      description = ''Streetlight is not working at the corner of Oak Avenue and Pine Street.'',
      category = ''streetlight'',
      location =
        \<lparr>address = ''456 Oak Ave, Anytown'', coordinates = \<lparr>lat = 40.7129, lng = - 74.007\<rparr>\<rparr>,
      images = [''https://example.com/streetlight1.jpg''],
      status = ''under_review'',
      severity = ''medium'',
      reportedBy = \<lparr>ref_id = ''2'', ref_name = ''Jane Smith''\<rparr>,
      assignedTo = None\<rparr>"

definition streetlight_report :: Report where
  "streetlight_report =
     \<lparr>title = ''Broken streetlight on Oak Avenue'',
      description = ''Streetlight is not working at the corner of Oak Avenue and Pine Street.'',
      category = ''streetlight'',
      location =
        \<lparr>address = ''456 Oak Ave, Anytown'', coordinates = \<lparr>lat = 40.7129, lng = - 74.007\<rparr>\<rparr>,
      images = [''https://example.com/streetlight1.jpg''],
      status = ''under_review'',
      severity = ''medium'',
      reportedBy = \<lparr>ref_id = ''2'', ref_name = ''Jane Smith''\<rparr>,
      assignedTo = None,
      report_id = ''2'',
      createdAt = ''2024-01-02T00:00:00Z'',
      updatedAt = ''2024-01-02T00:00:00Z'',
      upvotes = 3,
      upvotedBy = [''1'', ''3'', ''4''],
      comments = []\<rparr>"

definition loaded_store :: Store where
  "loaded_store = \<lparr>reports = [streetlight_report], isLoading = False, console = []\<rparr>"

definition a_comment :: CommentData where
  "a_comment =
     \<lparr>comment_text = ''test'',
      user = \<lparr>cu_id = Some ''1'', cu_name = Some ''John Doe'', role = ''citizen''\<rparr>\<rparr>"

text \<open>
  The row a remote create answers with, after section 6 of the specification: the record
  it was given, with a generated id, both timestamps, and no votes yet.
\<close>

definition stored :: "string \<Rightarrow> string \<Rightarrow> IssueInsert \<Rightarrow> Issue" where
  "stored new_id ts p =
     \<lparr>issue_title = issue_title p,
      issue_description = issue_description p,
      issue_status = issue_status p,
      priority = priority p,
      issue_category = issue_category p,
      issue_location = issue_location p,
      issue_images = issue_images p,
      user_id = user_id p,
      assigned_to = assigned_to p,
      resolution_notes = resolution_notes p,
      issue_id = new_id,
      created_at = ts,
      updated_at = ts,
      votes = 0\<rparr>"

text \<open>A backend that cannot be reached: every call fails.\<close>

definition offline :: Supabase where
  "offline =
     \<lparr>issues_insert = (\<lambda>p. PostgrestFailure (PostgrestError ''Failed to fetch'')),
      issues_select = (\<lambda>filters. PostgrestFailure (PostgrestError ''Failed to fetch'')),
      issues_update = (\<lambda>i u. PostgrestFailure (PostgrestError ''Failed to fetch'')),
      issues_delete = (\<lambda>i. PostgrestFailure (PostgrestError ''Failed to fetch'')),
      rpc_vote_on_issue = (\<lambda>i u. PostgrestFailure (PostgrestError ''Failed to fetch'')),
      issue_comments_insert = (\<lambda>c. PostgrestFailure (PostgrestError ''Failed to fetch'')),
      issue_comments_select = (\<lambda>i. PostgrestFailure (PostgrestError ''Failed to fetch''))\<rparr>"

text \<open>
  A backend that holds the given issue rows and comment rows and answers every call: a
  create gives the stored row, a list gives the rows, and an update or a delete fails for an
  id it does not hold (section 6).
\<close>

definition overwrite :: "'a option \<Rightarrow> 'a \<Rightarrow> 'a" where
  "overwrite v old = (case v of None \<Rightarrow> old | Some new \<Rightarrow> new)"

definition patched :: "Issue \<Rightarrow> IssueUpdate \<Rightarrow> Issue" where
  "patched r u =
     r\<lparr>issue_title := overwrite (patch_title u) (issue_title r),
       issue_description := overwrite (patch_description u) (issue_description r),
       issue_category := overwrite (patch_category u) (issue_category r),
       priority := overwrite (patch_priority u) (priority r),
       issue_location := overwrite (patch_location u) (issue_location r),
       issue_images := overwrite (patch_images u) (issue_images r),
       issue_status := overwrite (patch_status u) (issue_status r)\<rparr>"

definition online :: "Issue list \<Rightarrow> IssueCommentRow list \<Rightarrow> Supabase" where
  "online rows comment_rows =
     \<lparr>issues_insert = (\<lambda>p. PostgrestSuccess (stored ''7'' ''2024-01-04T00:00:00Z'' p)),
      issues_select = (\<lambda>filters. PostgrestSuccess rows),
      issues_update =
        (\<lambda>i u. case find (\<lambda>r. issue_id r = i) rows of
                  Some r \<Rightarrow> PostgrestSuccess (patched r u)
                | None \<Rightarrow> PostgrestFailure (PostgrestError ''no rows returned'')),
      issues_delete =
        (\<lambda>i. case find (\<lambda>r. issue_id r = i) rows of
                Some r \<Rightarrow> PostgrestSuccess ()
              | None \<Rightarrow> PostgrestFailure (PostgrestError ''no rows returned'')),
      rpc_vote_on_issue = (\<lambda>i u. PostgrestSuccess ()),
      issue_comments_insert =
        (\<lambda>c. PostgrestSuccess
               \<lparr>c_issue_id = c_issue_id c, c_user_id = c_user_id c, content = content c,
                c_id = ''c1'', c_created_at = ''2024-01-05T00:00:00Z'',
                c_updated_at = ''2024-01-05T00:00:00Z''\<rparr>),
      issue_comments_select =
        (\<lambda>i. PostgrestSuccess (filter (\<lambda>c. c_issue_id c = i) comment_rows))\<rparr>"

text \<open>The row the backend holds for the streetlight report, and the same row after three votes.\<close>

definition streetlight_issue :: Issue where
  "streetlight_issue = stored ''2'' ''2024-01-02T00:00:00Z'' (supabaseIssue streetlight_draft)"

definition voted_issue :: Issue where
  "voted_issue = streetlight_issue\<lparr>votes := 3\<rparr>"

text \<open>
  Two rows as the query of \<^verbatim>\<open>getComments\<close> returns them: a comment on report 2 with its
  author's joined profile, and a comment on report 2 whose author has no profile.
\<close>

definition a_comment_row :: IssueCommentRow where
  "a_comment_row =
     \<lparr>c_issue_id = ''2'', c_user_id = Some ''1'', content = ''test'',
      c_id = ''c1'', c_created_at = ''2024-01-05T00:00:00Z'',
      c_updated_at = ''2024-01-05T00:00:00Z'',
      c_user =
        Some [(''name'', ''John Doe''), (''avatar_url'', ''https://example.com/john.png'')]\<rparr>"

definition orphan_comment_row :: IssueCommentRow where
  "orphan_comment_row =
     \<lparr>c_issue_id = ''2'', c_user_id = Some ''8'', content = ''me too'',
      c_id = ''c2'', c_created_at = ''2024-01-06T00:00:00Z'',
      c_updated_at = ''2024-01-06T00:00:00Z'',
      c_user = None\<rparr>"

subsection \<open>The vote invariant of the data model\<close>

text \<open>
  Section 3 of the specification: \<^verbatim>\<open>upvotedBy\<close> has no duplicate user ids, and \<^verbatim>\<open>upvotes\<close>
  is its cardinality. The store keeps the invariant when every report of the collection does.
\<close>

definition votes_consistent :: "Report \<Rightarrow> bool" where
  "votes_consistent report =
     (distinct (upvotedBy report) \<and> upvotes report = int (length (upvotedBy report)))"

definition store_invariant :: "Store \<Rightarrow> bool" where
  "store_invariant st = list_all votes_consistent (reports st)"

section \<open>Properties of the vocabulary mapping\<close>

text \<open>
  C8. The local-to-remote mapping is the table of the specification, read over the whole of
  each local enumeration: pothole and road_damage go to road, streetlight to electricity,
  garbage, flooding and sign_damage to waste, graffiti and other to other; low, medium and
  high go to themselves. The two \<open>map\<close> equations list the images in the order of the
  enumerations, so no local value is left without an image.
\<close>

theorem vocabulary_mapping_table:
  "reportCategoryToIssueCategory ''pothole'' = ''road'' \<and>
   reportCategoryToIssueCategory ''road_damage'' = ''road'' \<and>
   reportCategoryToIssueCategory ''streetlight'' = ''electricity'' \<and>
   reportCategoryToIssueCategory ''garbage'' = ''waste'' \<and>
   reportCategoryToIssueCategory ''flooding'' = ''waste'' \<and>
   reportCategoryToIssueCategory ''sign_damage'' = ''waste'' \<and>
   reportCategoryToIssueCategory ''graffiti'' = ''other'' \<and>
   reportCategoryToIssueCategory ''other'' = ''other'' \<and>
   reportSeverityToPriority ''low'' = ''low'' \<and>
   reportSeverityToPriority ''medium'' = ''medium'' \<and>
   reportSeverityToPriority ''high'' = ''high'' \<and>
   map reportCategoryToIssueCategory ReportCategory_values =
     [''road'', ''electricity'', ''waste'', ''other'', ''road'', ''waste'', ''waste'', ''other''] \<and>
   map reportSeverityToPriority ReportSeverity_values = ReportSeverity_values"
  by (simp add: reportCategoryToIssueCategory_def reportSeverityToPriority_def
      ReportCategory_values_def ReportSeverity_values_def)

section \<open>Properties of the storage helper\<close>

lemma try_bad_type:
  "\<not> prefix ''image/'' (file_type file) \<Longrightarrow>
   uploadImage_try storage rnd stamp file folder =
     (Inl (Error ''Invalid file type. Please upload an image file.''), [])"
  unfolding uploadImage_try_def by (simp only: if_True not_False_eq_True)

lemma try_too_big:
  "prefix ''image/'' (file_type file) \<Longrightarrow> real (file_size file) > maxSize \<Longrightarrow>
   uploadImage_try storage rnd stamp file folder =
     (Inl (Error ''File size exceeds 1.5MB limit.''), [])"
  unfolding uploadImage_try_def by (simp only: if_True if_False not_True_eq_False)

lemma try_accepted:
  "prefix ''image/'' (file_type file) \<Longrightarrow> \<not> real (file_size file) > maxSize \<Longrightarrow>
   network_calls (snd (uploadImage_try storage rnd stamp file folder)) =
     [UploadRequest (folder @ ''/'' @ rnd @ ''-'' @ stamp @ ''.'' @ fileExt (file_name file)) file]"
  unfolding uploadImage_try_def network_calls_def Let_def
  by (cases "storage_upload storage (folder @ ''/'' @ rnd @ ''-'' @ stamp @ ''.'' @ fileExt (file_name file)) file")
     (simp_all del: append.simps append_assoc)

text \<open>
  C9. \<^verbatim>\<open>uploadImage\<close> checks the file before it sends anything. A file whose MIME type
  does not start with \<^verbatim>\<open>image/\<close> is refused with the type error, and an image of more than
  1.5 * 1024 * 1024 bytes with the size error; in both cases the only effect is the line the
  \<^verbatim>\<open>catch\<close> prints, so no upload request is sent. A file that passes both checks gives
  exactly one upload request, for the path built from folder, random part, time and extension.
\<close>

theorem uploadImage_validates_first:
  "maxSize = 1.5 * 1024 * 1024 \<and>
   (\<not> prefix ''image/'' (file_type file) \<longrightarrow>
      uploadImage storage rnd stamp file folder =
        (Inl (Error ''Invalid file type. Please upload an image file.''),
         [ConsoleError ''Error in uploadImage:''
            (Error ''Invalid file type. Please upload an image file.'')])) \<and>
   (prefix ''image/'' (file_type file) \<and> real (file_size file) > 1.5 * 1024 * 1024 \<longrightarrow>
      uploadImage storage rnd stamp file folder =
        (Inl (Error ''File size exceeds 1.5MB limit.''),
         [ConsoleError ''Error in uploadImage:'' (Error ''File size exceeds 1.5MB limit.'')])) \<and>
   (\<not> prefix ''image/'' (file_type file) \<or> real (file_size file) > 1.5 * 1024 * 1024 \<longrightarrow>
      (\<exists>m. fst (uploadImage storage rnd stamp file folder) = Inl (Error m)) \<and>
      network_calls (snd (uploadImage storage rnd stamp file folder)) = []) \<and>
   (prefix ''image/'' (file_type file) \<and> real (file_size file) \<le> 1.5 * 1024 * 1024 \<longrightarrow>
      network_calls (snd (uploadImage storage rnd stamp file folder)) =
        [UploadRequest
           ((case folder of None \<Rightarrow> ''issues'' | Some f \<Rightarrow> f) @ ''/'' @ rnd @ ''-'' @ stamp @
              ''.'' @ fileExt (file_name file))
           file])"
proof -
  let ?dir = "case folder of None \<Rightarrow> ''issues'' | Some f \<Rightarrow> f"
  have size: "maxSize = 1.5 * 1024 * 1024"
    by (simp add: maxSize_def)
  have bad_type: "uploadImage storage rnd stamp file folder =
        (Inl (Error ''Invalid file type. Please upload an image file.''),
         [ConsoleError ''Error in uploadImage:''
            (Error ''Invalid file type. Please upload an image file.'')])"
    if "\<not> prefix ''image/'' (file_type file)"
    using try_bad_type [OF that, of storage rnd stamp "?dir"]
    by (simp add: uploadImage_def)
  have too_big: "uploadImage storage rnd stamp file folder =
        (Inl (Error ''File size exceeds 1.5MB limit.''),
         [ConsoleError ''Error in uploadImage:'' (Error ''File size exceeds 1.5MB limit.'')])"
    if "prefix ''image/'' (file_type file)" "real (file_size file) > 1.5 * 1024 * 1024"
    using try_too_big [of "file" storage rnd stamp "?dir"] that
    by (simp add: uploadImage_def size)
  have accepted: "network_calls (snd (uploadImage storage rnd stamp file folder)) =
        [UploadRequest (?dir @ ''/'' @ rnd @ ''-'' @ stamp @ ''.'' @ fileExt (file_name file)) file]"
    if "prefix ''image/'' (file_type file)" "real (file_size file) \<le> 1.5 * 1024 * 1024"
  proof -
    have "network_calls (snd (uploadImage storage rnd stamp file folder)) =
          network_calls (snd (uploadImage_try storage rnd stamp file ?dir))"
      by (simp add: uploadImage_def network_calls_def split: prod.splits sum.splits)
    moreover have "\<not> real (file_size file) > maxSize"
      using that(2) by (simp add: size)
    ultimately show ?thesis
      using try_accepted [OF that(1), of storage rnd stamp "?dir"] by simp
  qed
  have rejected: "(\<exists>m. fst (uploadImage storage rnd stamp file folder) = Inl (Error m)) \<and>
      network_calls (snd (uploadImage storage rnd stamp file folder)) = []"
    if "\<not> prefix ''image/'' (file_type file) \<or> real (file_size file) > 1.5 * 1024 * 1024"
  proof (cases "prefix ''image/'' (file_type file)")
    case True
    with that too_big show ?thesis
      by (simp add: network_calls_def)
  next
    case False
    with bad_type show ?thesis
      by (simp add: network_calls_def)
  qed
  show ?thesis
    using size bad_type too_big rejected accepted by blast
qed

text \<open>
  The three cases at concrete files: a text file, a PNG of 1572865 bytes, and a PNG of
  exactly 1572864 bytes, which is still accepted.
\<close>

theorem uploadImage_validates_first_witness:
  "uploadImage bucket ''k3x9'' ''1700000000000''
     \<lparr>file_name = ''notes.txt'', file_type = ''text/plain'', file_size = 12\<rparr> None =
     (Inl (Error ''Invalid file type. Please upload an image file.''),
      [ConsoleError ''Error in uploadImage:''
         (Error ''Invalid file type. Please upload an image file.'')]) \<and>
   uploadImage bucket ''k3x9'' ''1700000000000''
     \<lparr>file_name = ''hole.png'', file_type = ''image/png'', file_size = 1572865\<rparr> None =
     (Inl (Error ''File size exceeds 1.5MB limit.''),
      [ConsoleError ''Error in uploadImage:'' (Error ''File size exceeds 1.5MB limit.'')]) \<and>
   network_calls (snd (uploadImage bucket ''k3x9'' ''1700000000000''
     \<lparr>file_name = ''hole.photo.png'', file_type = ''image/png'', file_size = 1572864\<rparr> None)) =
     [UploadRequest ''issues/k3x9-1700000000000.png''
        \<lparr>file_name = ''hole.photo.png'', file_type = ''image/png'', file_size = 1572864\<rparr>]"
  using
    uploadImage_validates_first [of "\<lparr>file_name = ''notes.txt'', file_type = ''text/plain'', file_size = 12\<rparr>"
      bucket "''k3x9''" "''1700000000000''" None]
    uploadImage_validates_first [of "\<lparr>file_name = ''hole.png'', file_type = ''image/png'', file_size = 1572865\<rparr>"
      bucket "''k3x9''" "''1700000000000''" None]
    uploadImage_validates_first [of "\<lparr>file_name = ''hole.photo.png'', file_type = ''image/png'', file_size = 1572864\<rparr>"
      bucket "''k3x9''" "''1700000000000''" None]
  by (simp add: fileExt_def)

section \<open>Properties of the report store\<close>

subsection \<open>Helper facts\<close>

lemma throw_or_data_simps:
  "throw_or_data (PostgrestFailure e) = Inl e"
  "throw_or_data (PostgrestSuccess d) = Inr d"
  by (simp_all add: throw_or_data_def)

lemma truthy_empty: "\<not> truthy (Some [])" "\<not> truthy None"
  by (simp_all add: truthy_def)

lemma find_absent:
  "id' \<notin> set (map report_id rs) \<Longrightarrow> find (\<lambda>r. report_id r = id') rs = None"
  by (induction rs) auto

lemma upvote_one_again:
  "upvote_one now2 id' u (upvote_one now1 id' u report) = upvote_one now1 id' u report"
  by (simp add: upvote_one_def)

lemma upvoteReport_reports:
  "reports (snd (upvoteReport supabase now id' userId st)) =
   map (upvote_one now id' userId) (reports st)"
  by (simp add: upvoteReport_def Let_def split: sum.splits)

lemma find_map_upvote_one:
  "find (\<lambda>r. report_id r = id') (map (upvote_one now id' u) rs) =
   map_option (upvote_one now id' u) (find (\<lambda>r. report_id r = id') rs)"
  by (induction rs) (simp_all add: upvote_one_def)

lemma local_change_needs_remote_success:
  "(reports (snd (addReport supabase report st)) \<noteq> reports st \<longrightarrow>
      (\<exists>d. issues_insert supabase (supabaseIssue report) = PostgrestSuccess d)) \<and>
   (reports (snd (deleteReport supabase id' st)) \<noteq> reports st \<longrightarrow>
      issues_delete supabase id' = PostgrestSuccess ()) \<and>
   (reports (snd (addComment supabase now reportId commentData st)) \<noteq> reports st \<longrightarrow>
      (\<exists>d. issue_comments_insert supabase
             \<lparr>c_issue_id = reportId, c_user_id = cu_id (user commentData),
              content = comment_text commentData\<rparr> = PostgrestSuccess d))"
proof (intro conjI impI)
  assume changed: "reports (snd (addReport supabase report st)) \<noteq> reports st"
  show "\<exists>d. issues_insert supabase (supabaseIssue report) = PostgrestSuccess d"
  proof (cases "issues_insert supabase (supabaseIssue report)")
    case (PostgrestSuccess d)
    then show ?thesis by simp
  next
    case (PostgrestFailure e)
    with changed show ?thesis
      by (simp add: addReport_def createIssue_def throw_or_data_simps)
  qed
next
  assume changed: "reports (snd (deleteReport supabase id' st)) \<noteq> reports st"
  show "issues_delete supabase id' = PostgrestSuccess ()"
  proof (cases "issues_delete supabase id'")
    case (PostgrestSuccess d)
    then show ?thesis by simp
  next
    case (PostgrestFailure e)
    with changed show ?thesis
      by (simp add: deleteReport_def deleteIssue_def throw_or_data_simps)
  qed
next
  let ?payload = "\<lparr>c_issue_id = reportId, c_user_id = cu_id (user commentData),
                   content = comment_text commentData\<rparr>"
  assume changed: "reports (snd (addComment supabase now reportId commentData st)) \<noteq> reports st"
  show "\<exists>d. issue_comments_insert supabase ?payload = PostgrestSuccess d"
  proof (cases "issue_comments_insert supabase ?payload")
    case (PostgrestSuccess d)
    then show ?thesis by simp
  next
    case (PostgrestFailure e)
    with changed show ?thesis
      by (simp add: addComment_def createComment_def throw_or_data_simps)
  qed
qed

subsection \<open>What is written to the remote store\<close>

text \<open>
  C1. A local status \<^verbatim>\<open>under_review\<close> should reach the remote store as \<^verbatim>\<open>reported\<close> on
  every write. \<^verbatim>\<open>addReport\<close> does so: the streetlight draft, whose status is
  \<^verbatim>\<open>under_review\<close>, is sent with status \<^verbatim>\<open>reported\<close>. \<^verbatim>\<open>updateReport\<close> does not: for the
  update \<^verbatim>\<open>{status: 'under_review'}\<close> the object handed to \<^verbatim>\<open>updateIssue\<close> carries the
  status \<^verbatim>\<open>under_review\<close>, which is no remote status.
\<close>

theorem updateReport_forwards_under_review:
  "status streetlight_draft = ''under_review'' \<and>
   issue_status (supabaseIssue streetlight_draft) = ''reported'' \<and>
   patch_status (supabaseUpdates (no_updates\<lparr>upd_status := Value ''under_review''\<rparr>)) =
     Some ''under_review'' \<and>
   ''under_review'' \<notin> set IssueStatus_values"
  by (simp add: supabaseIssue_def supabaseUpdates_def streetlight_draft_def no_updates_def
      truthy_def read_def IssueStatus_values_def)

text \<open>
  C2. A category that maps to a remote category of its own should come back unchanged from
  a fetch of the collection, and so should every severity. Streetlight is the one local
  category with a remote category of its own. The streetlight draft is created on a backend
  that stores what it is sent; the new local report has the category \<^verbatim>\<open>streetlight\<close>. A
  fetch from the backend that now holds the row replaces the collection, and the report it
  builds has the category \<^verbatim>\<open>electricity\<close>: \<^verbatim>\<open>fetchReports\<close> copies the remote category
  under a cast and maps nothing back. The severity \<^verbatim>\<open>medium\<close> does come back.
\<close>

theorem refetch_returns_remote_category:
  "category streetlight_draft = ''streetlight'' \<and>
   createIssue (online [] []) (supabaseIssue streetlight_draft) =
     Inr (stored ''7'' ''2024-01-04T00:00:00Z'' (supabaseIssue streetlight_draft)) \<and>
   map category (reports (snd (addReport (online [] []) streetlight_draft initial_store))) =
     [''streetlight''] \<and>
   map category
     (reports
        (fetchReports
           (online [stored ''7'' ''2024-01-04T00:00:00Z'' (supabaseIssue streetlight_draft)] [])
           (snd (addReport (online [] []) streetlight_draft initial_store)))) =
     [''electricity''] \<and>
   ''electricity'' \<notin> set ReportCategory_values \<and>
   map severity
     (reports
        (fetchReports
           (online [stored ''7'' ''2024-01-04T00:00:00Z'' (supabaseIssue streetlight_draft)] [])
           (snd (addReport (online [] []) streetlight_draft initial_store)))) =
     [''medium'']"
  by (simp add: addReport_def createIssue_def throw_or_data_simps online_def newReport_def
      fetchReports_def getIssues_def formatReport_def stored_def supabaseIssue_def
      streetlight_draft_def initial_store_def reportCategoryToIssueCategory_def
      reportSeverityToPriority_def ReportCategory_values_def)

subsection \<open>The vote invariant\<close>

text \<open>
  C3. Every operation should keep the vote invariant, the fetch included. The empty
  collection and the collection with the sample report keep it. A fetch of an issue with
  three votes builds a report with \<^verbatim>\<open>upvotes\<close> 3 and an empty \<^verbatim>\<open>upvotedBy\<close>, so the
  collection after the initial fetch, and after a refetch that a change notification starts,
  breaks it.
\<close>

theorem fetchReports_breaks_vote_invariant:
  "store_invariant initial_store \<and>
   store_invariant loaded_store \<and>
   map upvotes (reports (fetchReports (online [voted_issue] []) initial_store)) = [3] \<and>
   map upvotedBy (reports (fetchReports (online [voted_issue] []) initial_store)) = [[]] \<and>
   \<not> store_invariant (fetchReports (online [voted_issue] []) initial_store) \<and>
   \<not> store_invariant (on_issues_change (online [voted_issue] []) loaded_store)"
  by (simp add: store_invariant_def votes_consistent_def initial_store_def loaded_store_def
      streetlight_report_def on_issues_change_def fetchReports_def getIssues_def
      throw_or_data_simps online_def formatReport_def voted_issue_def or_zero_def)

subsection \<open>Failures of the remote call\<close>

text \<open>
  C4. In \<^verbatim>\<open>addReport\<close>, \<^verbatim>\<open>deleteReport\<close> and \<^verbatim>\<open>addComment\<close>, when the remote call fails
  with an error, the caller gets that same error and the local collection is what it was.
  The collection changes only after the remote call has succeeded: whenever it differs
  after the operation, the remote call answered with success.
\<close>

theorem remote_failure_keeps_collection:
  "(issues_insert supabase (supabaseIssue report) = PostgrestFailure e \<longrightarrow>
      fst (addReport supabase report st) = Inl e \<and>
      reports (snd (addReport supabase report st)) = reports st) \<and>
   (issues_delete supabase id' = PostgrestFailure e \<longrightarrow>
      fst (deleteReport supabase id' st) = Inl e \<and>
      reports (snd (deleteReport supabase id' st)) = reports st) \<and>
   (issue_comments_insert supabase
      \<lparr>c_issue_id = reportId, c_user_id = cu_id (user commentData),
       content = comment_text commentData\<rparr> = PostgrestFailure e \<longrightarrow>
      fst (addComment supabase now reportId commentData st) = Inl e \<and>
      reports (snd (addComment supabase now reportId commentData st)) = reports st) \<and>
   (reports (snd (addReport supabase report st)) \<noteq> reports st \<longrightarrow>
      (\<exists>d. issues_insert supabase (supabaseIssue report) = PostgrestSuccess d)) \<and>
   (reports (snd (deleteReport supabase id' st)) \<noteq> reports st \<longrightarrow>
      issues_delete supabase id' = PostgrestSuccess ()) \<and>
   (reports (snd (addComment supabase now reportId commentData st)) \<noteq> reports st \<longrightarrow>
      (\<exists>d. issue_comments_insert supabase
             \<lparr>c_issue_id = reportId, c_user_id = cu_id (user commentData),
              content = comment_text commentData\<rparr> = PostgrestSuccess d))"
proof -
  have failures:
    "(issues_insert supabase (supabaseIssue report) = PostgrestFailure e \<longrightarrow>
        fst (addReport supabase report st) = Inl e \<and>
        reports (snd (addReport supabase report st)) = reports st) \<and>
     (issues_delete supabase id' = PostgrestFailure e \<longrightarrow>
        fst (deleteReport supabase id' st) = Inl e \<and>
        reports (snd (deleteReport supabase id' st)) = reports st) \<and>
     (issue_comments_insert supabase
        \<lparr>c_issue_id = reportId, c_user_id = cu_id (user commentData),
         content = comment_text commentData\<rparr> = PostgrestFailure e \<longrightarrow>
        fst (addComment supabase now reportId commentData st) = Inl e \<and>
        reports (snd (addComment supabase now reportId commentData st)) = reports st)"
    by (simp add: addReport_def createIssue_def deleteReport_def deleteIssue_def addComment_def
        createComment_def throw_or_data_simps)
  show ?thesis
    using failures local_change_needs_remote_success [of supabase report st id' now reportId commentData]
    by blast
qed

text \<open>
  On the backend that cannot be reached, the three operations on the loaded store hand the
  backend's error to the caller and leave the one report in place; on a backend that holds
  the report's row, the delete succeeds and the collection changes.
\<close>

theorem remote_failure_keeps_collection_witness:
  "fst (addReport offline streetlight_draft loaded_store) =
     Inl (PostgrestError ''Failed to fetch'') \<and>
   reports (snd (addReport offline streetlight_draft loaded_store)) = [streetlight_report] \<and>
   fst (deleteReport offline ''2'' loaded_store) = Inl (PostgrestError ''Failed to fetch'') \<and>
   reports (snd (deleteReport offline ''2'' loaded_store)) = [streetlight_report] \<and>
   fst (addComment offline ''2024-01-05T00:00:00Z'' ''2'' a_comment loaded_store) =
     Inl (PostgrestError ''Failed to fetch'') \<and>
   reports (snd (addComment offline ''2024-01-05T00:00:00Z'' ''2'' a_comment loaded_store)) =
     [streetlight_report] \<and>
   reports (snd (deleteReport (online [streetlight_issue] []) ''2'' loaded_store)) \<noteq>
     reports loaded_store \<and>
   issues_delete (online [streetlight_issue] []) ''2'' = PostgrestSuccess ()"
proof -
  have gone: "reports (snd (deleteReport (online [streetlight_issue] []) ''2'' loaded_store)) \<noteq>
      reports loaded_store"
    by (simp add: deleteReport_def deleteIssue_def throw_or_data_simps online_def
        streetlight_issue_def stored_def loaded_store_def streetlight_report_def)
  show ?thesis
    using gone
      remote_failure_keeps_collection [of offline streetlight_draft
        "PostgrestError ''Failed to fetch''" loaded_store "''2''" "''2''" a_comment
        "''2024-01-05T00:00:00Z''"]
      remote_failure_keeps_collection [of "online [streetlight_issue] []" streetlight_draft
        "PostgrestError ''Failed to fetch''" loaded_store "''2''" "''2''" a_comment
        "''2024-01-05T00:00:00Z''"]
    by (simp add: offline_def loaded_store_def)
qed

subsection \<open>Upvotes\<close>

text \<open>
  C5. Calling \<^verbatim>\<open>upvoteReport(id, u)\<close> twice leaves the collection, and so the report for
  \<^verbatim>\<open>id\<close>, as the first call left it, whatever the backend answers and whatever the clock
  shows at the second call. The first call, for the report that \<^verbatim>\<open>find\<close> gives for \<^verbatim>\<open>id\<close>:
  when \<open>u\<close> is in \<^verbatim>\<open>upvotedBy\<close> the report stays as it is; otherwise \<^verbatim>\<open>upvotes\<close> grows by
  one, \<open>u\<close> is appended to \<^verbatim>\<open>upvotedBy\<close>, and \<^verbatim>\<open>updatedAt\<close> is the time of the call.
\<close>

theorem upvoteReport_twice:
  "reports (snd (upvoteReport supabase2 now2 id' u (snd (upvoteReport supabase1 now1 id' u st)))) =
     reports (snd (upvoteReport supabase1 now1 id' u st)) \<and>
   (find (\<lambda>r. report_id r = id') (reports st) = Some report \<longrightarrow>
      find (\<lambda>r. report_id r = id') (reports (snd (upvoteReport supabase1 now1 id' u st))) =
        Some (if u \<in> set (upvotedBy report) then report
              else report\<lparr>upvotes := upvotes report + 1,
                          upvotedBy := upvotedBy report @ [u],
                          updatedAt := now1\<rparr>))"
proof
  show "reports (snd (upvoteReport supabase2 now2 id' u (snd (upvoteReport supabase1 now1 id' u st)))) =
     reports (snd (upvoteReport supabase1 now1 id' u st))"
    by (simp add: upvoteReport_reports upvote_one_again)
next
  show "find (\<lambda>r. report_id r = id') (reports st) = Some report \<longrightarrow>
      find (\<lambda>r. report_id r = id') (reports (snd (upvoteReport supabase1 now1 id' u st))) =
        Some (if u \<in> set (upvotedBy report) then report
              else report\<lparr>upvotes := upvotes report + 1,
                          upvotedBy := upvotedBy report @ [u],
                          updatedAt := now1\<rparr>)"
  proof
    assume found: "find (\<lambda>r. report_id r = id') (reports st) = Some report"
    then have "report_id report = id'"
      by (auto simp: find_Some_iff)
    with found show
      "find (\<lambda>r. report_id r = id') (reports (snd (upvoteReport supabase1 now1 id' u st))) =
        Some (if u \<in> set (upvotedBy report) then report
              else report\<lparr>upvotes := upvotes report + 1,
                          upvotedBy := upvotedBy report @ [u],
                          updatedAt := now1\<rparr>)"
      by (simp add: upvoteReport_reports find_map_upvote_one upvote_one_def)
  qed
qed

text \<open>
  User 9 has not voted for report 2 of the loaded store: the first call makes the votes 4,
  and a second call changes nothing more. User 3 has voted: the call leaves the report.
\<close>

theorem upvoteReport_twice_witness:
  "find (\<lambda>r. report_id r = ''2'') (reports loaded_store) = Some streetlight_report \<and>
   find (\<lambda>r. report_id r = ''2'')
     (reports (snd (upvoteReport offline ''2024-01-06T00:00:00Z'' ''2'' ''9'' loaded_store))) =
     Some (streetlight_report\<lparr>upvotes := 4, upvotedBy := [''1'', ''3'', ''4'', ''9''],
                              updatedAt := ''2024-01-06T00:00:00Z''\<rparr>) \<and>
   reports (snd (upvoteReport (online [] []) ''2024-01-07T00:00:00Z'' ''2'' ''9''
              (snd (upvoteReport offline ''2024-01-06T00:00:00Z'' ''2'' ''9'' loaded_store)))) =
     reports (snd (upvoteReport offline ''2024-01-06T00:00:00Z'' ''2'' ''9'' loaded_store)) \<and>
   find (\<lambda>r. report_id r = ''2'')
     (reports (snd (upvoteReport offline ''2024-01-06T00:00:00Z'' ''2'' ''3'' loaded_store))) =
     Some streetlight_report"
proof -
  have found: "find (\<lambda>r. report_id r = ''2'') (reports loaded_store) = Some streetlight_report"
    by (simp add: loaded_store_def streetlight_report_def)
  have voters: "upvotedBy streetlight_report = [''1'', ''3'', ''4'']" "upvotes streetlight_report = 3"
    by (simp_all add: streetlight_report_def)
  show ?thesis
    using found
      upvoteReport_twice [of "online [] []" "''2024-01-07T00:00:00Z''" "''2''" "''9''" offline
        "''2024-01-06T00:00:00Z''" loaded_store streetlight_report]
      upvoteReport_twice [of "online [] []" "''2024-01-07T00:00:00Z''" "''2''" "''3''" offline
        "''2024-01-06T00:00:00Z''" loaded_store streetlight_report]
    by (simp add: voters)
qed

text \<open>
  C6. \<^verbatim>\<open>upvoteReport\<close> never rejects: its caller gets no error, whatever the vote procedure
  answers. The local bookkeeping does not depend on that answer: the collection after the
  call is the same for any two backends, and in it every report with the id that the user
  has not yet voted for has one vote more, the user appended to \<^verbatim>\<open>upvotedBy\<close> and
  \<^verbatim>\<open>updatedAt\<close> set to the time of the call, while every other report is as it was. When the
  vote procedure fails, \<^verbatim>\<open>voteOnIssue\<close> throws its error and \<^verbatim>\<open>console.error\<close> prints it.
\<close>

theorem upvoteReport_best_effort:
  "fst (upvoteReport supabase now id' userId st) = Inr () \<and>
   reports (snd (upvoteReport supabase now id' userId st)) =
     reports (snd (upvoteReport supabase' now id' userId st)) \<and>
   length (reports (snd (upvoteReport supabase now id' userId st))) = length (reports st) \<and>
   (\<forall>i. i < length (reports st) \<longrightarrow>
      reports (snd (upvoteReport supabase now id' userId st)) ! i =
        (if report_id (reports st ! i) = id' \<and> userId \<notin> set (upvotedBy (reports st ! i))
         then (reports st ! i)
                \<lparr>upvotes := upvotes (reports st ! i) + 1,
                 upvotedBy := upvotedBy (reports st ! i) @ [userId],
                 updatedAt := now\<rparr>
         else reports st ! i)) \<and>
   (rpc_vote_on_issue supabase id' userId = PostgrestFailure e \<longrightarrow>
      voteOnIssue supabase id' userId = Inl e \<and>
      console (snd (upvoteReport supabase now id' userId st)) =
        console st @ [(''Error upvoting issue in Supabase:'', e)])"
proof -
  have no_error: "fst (upvoteReport supabase now id' userId st) = Inr ()"
    by (simp add: upvoteReport_def Let_def)
  have same: "reports (snd (upvoteReport supabase now id' userId st)) =
      reports (snd (upvoteReport supabase' now id' userId st))"
    by (simp add: upvoteReport_reports)
  have len: "length (reports (snd (upvoteReport supabase now id' userId st))) =
      length (reports st)"
    by (simp add: upvoteReport_reports)
  have each: "reports (snd (upvoteReport supabase now id' userId st)) ! i =
        (if report_id (reports st ! i) = id' \<and> userId \<notin> set (upvotedBy (reports st ! i))
         then (reports st ! i)
                \<lparr>upvotes := upvotes (reports st ! i) + 1,
                 upvotedBy := upvotedBy (reports st ! i) @ [userId],
                 updatedAt := now\<rparr>
         else reports st ! i)"
    if "i < length (reports st)" for i
    using that by (simp add: upvoteReport_reports upvote_one_def)
  have logged: "voteOnIssue supabase id' userId = Inl e \<and>
      console (snd (upvoteReport supabase now id' userId st)) =
        console st @ [(''Error upvoting issue in Supabase:'', e)]"
    if "rpc_vote_on_issue supabase id' userId = PostgrestFailure e"
    using that by (simp add: upvoteReport_def voteOnIssue_def throw_or_data_simps Let_def)
  show ?thesis
    using no_error same len each logged by blast
qed

text \<open>
  The backend cannot be reached. The vote of user 9 for report 2 gives the caller no error
  and prints the failure; the report has 4 votes, user 9 as its last voter and the time of
  the call. The vote of user 3, who has voted before, leaves the report as it is.
\<close>

theorem upvoteReport_best_effort_witness:
  "voteOnIssue offline ''2'' ''9'' = Inl (PostgrestError ''Failed to fetch'') \<and>
   fst (upvoteReport offline ''2024-01-06T00:00:00Z'' ''2'' ''9'' loaded_store) = Inr () \<and>
   console (snd (upvoteReport offline ''2024-01-06T00:00:00Z'' ''2'' ''9'' loaded_store)) =
     [(''Error upvoting issue in Supabase:'', PostgrestError ''Failed to fetch'')] \<and>
   reports (snd (upvoteReport offline ''2024-01-06T00:00:00Z'' ''2'' ''9'' loaded_store)) ! 0 =
     streetlight_report
       \<lparr>upvotes := 4, upvotedBy := [''1'', ''3'', ''4'', ''9''],
        updatedAt := ''2024-01-06T00:00:00Z''\<rparr> \<and>
   reports (snd (upvoteReport offline ''2024-01-06T00:00:00Z'' ''2'' ''3'' loaded_store)) ! 0 =
     streetlight_report \<and>
   reports (snd (upvoteReport offline ''2024-01-06T00:00:00Z'' ''2'' ''9'' loaded_store)) =
     reports (snd (upvoteReport (online [] []) ''2024-01-06T00:00:00Z'' ''2'' ''9'' loaded_store))"
proof -
  have failing: "rpc_vote_on_issue offline ''2'' ''9'' =
      PostgrestFailure (PostgrestError ''Failed to fetch'')"
    by (simp add: offline_def)
  have first: "0 < length (reports loaded_store)" "reports loaded_store ! 0 = streetlight_report"
    "console loaded_store = []"
    by (simp_all add: loaded_store_def)
  have sample: "report_id streetlight_report = ''2''"
    "upvotedBy streetlight_report = [''1'', ''3'', ''4'']" "upvotes streetlight_report = 3"
    by (simp_all add: streetlight_report_def)
  note new_voter = upvoteReport_best_effort [of offline "''2024-01-06T00:00:00Z''" "''2''" "''9''"
      loaded_store "online [] []" "PostgrestError ''Failed to fetch''"]
  note old_voter = upvoteReport_best_effort [of offline "''2024-01-06T00:00:00Z''" "''2''" "''3''"
      loaded_store "online [] []" "PostgrestError ''Failed to fetch''"]
  have thrown: "voteOnIssue offline ''2'' ''9'' = Inl (PostgrestError ''Failed to fetch'')"
    using failing new_voter by blast
  have no_error: "fst (upvoteReport offline ''2024-01-06T00:00:00Z'' ''2'' ''9'' loaded_store) =
      Inr ()"
    using new_voter by blast
  have printed: "console (snd (upvoteReport offline ''2024-01-06T00:00:00Z'' ''2'' ''9''
        loaded_store)) =
      console loaded_store @
        [(''Error upvoting issue in Supabase:'', PostgrestError ''Failed to fetch'')]"
    using failing new_voter by blast
  have advanced: "reports (snd (upvoteReport offline ''2024-01-06T00:00:00Z'' ''2'' ''9''
        loaded_store)) ! 0 =
      (if report_id (reports loaded_store ! 0) = ''2'' \<and>
          ''9'' \<notin> set (upvotedBy (reports loaded_store ! 0))
       then (reports loaded_store ! 0)
              \<lparr>upvotes := upvotes (reports loaded_store ! 0) + 1,
               upvotedBy := upvotedBy (reports loaded_store ! 0) @ [''9''],
               updatedAt := ''2024-01-06T00:00:00Z''\<rparr>
       else reports loaded_store ! 0)"
    using first(1) new_voter by blast
  have kept: "reports (snd (upvoteReport offline ''2024-01-06T00:00:00Z'' ''2'' ''3''
        loaded_store)) ! 0 =
      (if report_id (reports loaded_store ! 0) = ''2'' \<and>
          ''3'' \<notin> set (upvotedBy (reports loaded_store ! 0))
       then (reports loaded_store ! 0)
              \<lparr>upvotes := upvotes (reports loaded_store ! 0) + 1,
               upvotedBy := upvotedBy (reports loaded_store ! 0) @ [''3''],
               updatedAt := ''2024-01-06T00:00:00Z''\<rparr>
       else reports loaded_store ! 0)"
    using first(1) old_voter by blast
  have same: "reports (snd (upvoteReport offline ''2024-01-06T00:00:00Z'' ''2'' ''9''
        loaded_store)) =
      reports (snd (upvoteReport (online [] []) ''2024-01-06T00:00:00Z'' ''2'' ''9''
        loaded_store))"
    using new_voter by blast
  show ?thesis
    using thrown no_error printed advanced kept same
    by (simp add: first(2,3) sample)
qed

subsection \<open>Reading one report\<close>

lemma selected_columns_reads:
  "selected_columns profile \<Longrightarrow>
   profile_get profile ''id'' = None \<and> profile_get profile ''role'' = None"
  by (induction profile) (auto simp: selected_columns_def profile_get_def)

lemma transformComment_fields:
  "c_user row = Some profile \<Longrightarrow>
   \<exists>c. transformComment row = Inr c \<and>
       comment_id c = c_id row \<and>
       comment_text c = content row \<and>
       comment_createdAt c = c_created_at row \<and>
       cu_id (user c) = profile_get profile ''id'' \<and>
       cu_name (user c) = profile_get profile ''name'' \<and>
       role (user c) =
         (case profile_get profile ''role'' of
            None \<Rightarrow> ''citizen''
          | Some r \<Rightarrow> if r = '''' then ''citizen'' else r)"
  by (simp add: transformComment_def role_or_citizen_def truthy_def split: option.splits)

lemma transformedComments_all:
  "\<forall>row \<in> set fetched. c_user row \<noteq> None \<Longrightarrow>
   \<exists>cs. transformedComments fetched = Inr cs \<and> list_all2 mapped_from fetched cs"
proof (induction fetched)
  case Nil
  then show ?case by simp
next
  case (Cons row rest)
  then obtain profile where p: "c_user row = Some profile"
    by auto
  from transformComment_fields [OF p] obtain c where
    c: "transformComment row = Inr c" "mapped_from row c"
    by (auto simp: mapped_from_def p)
  from Cons obtain cs where cs: "transformedComments rest = Inr cs" "list_all2 mapped_from rest cs"
    by auto
  from c cs show ?case
    by simp
qed

lemma transformedComments_null_profile:
  "\<exists>row \<in> set fetched. c_user row = None \<Longrightarrow>
   transformedComments fetched = Inl (TypeError ''id'')"
proof (induction fetched)
  case Nil
  then show ?case by simp
next
  case (Cons row rest)
  show ?case
  proof (cases "c_user row")
    case None
    then show ?thesis
      by (simp add: transformComment_def)
  next
    case (Some profile)
    with Cons.prems have "\<exists>row \<in> set rest. c_user row = None"
      by auto
    with Cons.IH have "transformedComments rest = Inl (TypeError ''id'')"
      by simp
    with Some show ?thesis
      by (simp add: transformComment_def)
  qed
qed

text \<open>
  C7. \<^verbatim>\<open>getReportById(id)\<close> gives \<^verbatim>\<open>undefined\<close> (\<open>None\<close>) when no local
  report has the id. When \<^verbatim>\<open>find\<close> gives a local report, the comment fetch succeeds and every
  fetched row has a joined profile, the result is that report with \<^verbatim>\<open>comments\<close> replaced by
  one comment for each fetched row, in order: its id, text and creation time are the row's
  \<^verbatim>\<open>id\<close>, \<^verbatim>\<open>content\<close> and \<^verbatim>\<open>created_at\<close>, and its author's id, name and role are what the
  joined profile holds under \<^verbatim>\<open>id\<close>, \<^verbatim>\<open>name\<close> and \<^verbatim>\<open>role\<close>, the role being \<^verbatim>\<open>citizen\<close>
  when the profile holds none. When the comment fetch fails, or when it succeeds with a row
  that has no joined profile, so that the mapping throws inside the \<^verbatim>\<open>try\<close>, the result is
  the local report as it is, and the error is printed. The collection is never changed.
\<close>

theorem getReportById_cases:
  "(id' \<notin> set (map report_id (reports st)) \<longrightarrow>
      fst (getReportById supabase id' st) = None) \<and>
   (find (\<lambda>r. report_id r = id') (reports st) = Some report \<and>
    issue_comments_select supabase id' = PostgrestSuccess fetched \<and>
    (\<forall>row \<in> set fetched. c_user row \<noteq> None) \<longrightarrow>
      (\<exists>cs. fst (getReportById supabase id' st) = Some (report\<lparr>comments := cs\<rparr>) \<and>
            length cs = length fetched \<and>
            (\<forall>i profile. i < length fetched \<and> c_user (fetched ! i) = Some profile \<longrightarrow>
               comment_id (cs ! i) = c_id (fetched ! i) \<and>
               comment_text (cs ! i) = content (fetched ! i) \<and>
               comment_createdAt (cs ! i) = c_created_at (fetched ! i) \<and>
               cu_id (user (cs ! i)) = profile_get profile ''id'' \<and>
               cu_name (user (cs ! i)) = profile_get profile ''name'' \<and>
               role (user (cs ! i)) =
                 (case profile_get profile ''role'' of
                    None \<Rightarrow> ''citizen''
                  | Some r \<Rightarrow> if r = '''' then ''citizen'' else r))) \<and>
      console (snd (getReportById supabase id' st)) = console st) \<and>
   (find (\<lambda>r. report_id r = id') (reports st) = Some report \<and>
    issue_comments_select supabase id' = PostgrestFailure e \<longrightarrow>
      fst (getReportById supabase id' st) = Some report \<and>
      console (snd (getReportById supabase id' st)) =
        console st @ [(''Error fetching comments:'', e)]) \<and>
   (find (\<lambda>r. report_id r = id') (reports st) = Some report \<and>
    issue_comments_select supabase id' = PostgrestSuccess fetched \<and>
    (\<exists>row \<in> set fetched. c_user row = None) \<longrightarrow>
      fst (getReportById supabase id' st) = Some report \<and>
      console (snd (getReportById supabase id' st)) =
        console st @ [(''Error fetching comments:'', TypeError ''id'')]) \<and>
   reports (snd (getReportById supabase id' st)) = reports st"
proof (intro conjI impI)
  assume "id' \<notin> set (map report_id (reports st))"
  then show "fst (getReportById supabase id' st) = None"
    by (simp add: getReportById_def find_absent)
next
  assume a: "find (\<lambda>r. report_id r = id') (reports st) = Some report \<and>
    issue_comments_select supabase id' = PostgrestSuccess fetched \<and>
    (\<forall>row \<in> set fetched. c_user row \<noteq> None)"
  then obtain cs where cs: "transformedComments fetched = Inr cs"
      "list_all2 mapped_from fetched cs"
    using transformedComments_all [of fetched] by blast
  from cs(2) have len: "length cs = length fetched"
    by (simp add: list_all2_lengthD)
  have each: "comment_id (cs ! i) = c_id (fetched ! i) \<and>
               comment_text (cs ! i) = content (fetched ! i) \<and>
               comment_createdAt (cs ! i) = c_created_at (fetched ! i) \<and>
               cu_id (user (cs ! i)) = profile_get profile ''id'' \<and>
               cu_name (user (cs ! i)) = profile_get profile ''name'' \<and>
               role (user (cs ! i)) =
                 (case profile_get profile ''role'' of
                    None \<Rightarrow> ''citizen''
                  | Some r \<Rightarrow> if r = '''' then ''citizen'' else r)"
    if "i < length fetched \<and> c_user (fetched ! i) = Some profile" for i profile
  proof -
    from that cs(2) have "mapped_from (fetched ! i) (cs ! i)"
      by (simp add: list_all2_nthD)
    with that show ?thesis
      by (simp add: mapped_from_def)
  qed
  from a cs(1) have result: "fst (getReportById supabase id' st) = Some (report\<lparr>comments := cs\<rparr>)"
    by (simp add: getReportById_def getComments_def throw_or_data_simps)
  from result len each
  show "\<exists>cs. fst (getReportById supabase id' st) = Some (report\<lparr>comments := cs\<rparr>) \<and>
            length cs = length fetched \<and>
            (\<forall>i profile. i < length fetched \<and> c_user (fetched ! i) = Some profile \<longrightarrow>
               comment_id (cs ! i) = c_id (fetched ! i) \<and>
               comment_text (cs ! i) = content (fetched ! i) \<and>
               comment_createdAt (cs ! i) = c_created_at (fetched ! i) \<and>
               cu_id (user (cs ! i)) = profile_get profile ''id'' \<and>
               cu_name (user (cs ! i)) = profile_get profile ''name'' \<and>
               role (user (cs ! i)) =
                 (case profile_get profile ''role'' of
                    None \<Rightarrow> ''citizen''
                  | Some r \<Rightarrow> if r = '''' then ''citizen'' else r))"
    by blast
  from a cs(1) show "console (snd (getReportById supabase id' st)) = console st"
    by (simp add: getReportById_def getComments_def throw_or_data_simps)
next
  assume failed: "find (\<lambda>r. report_id r = id') (reports st) = Some report \<and>
    issue_comments_select supabase id' = PostgrestFailure e"
  then show "fst (getReportById supabase id' st) = Some report"
    by (simp add: getReportById_def getComments_def throw_or_data_simps)
  from failed show "console (snd (getReportById supabase id' st)) =
        console st @ [(''Error fetching comments:'', e)]"
    by (simp add: getReportById_def getComments_def throw_or_data_simps)
next
  assume a: "find (\<lambda>r. report_id r = id') (reports st) = Some report \<and>
    issue_comments_select supabase id' = PostgrestSuccess fetched \<and>
    (\<exists>row \<in> set fetched. c_user row = None)"
  then have thrown: "transformedComments fetched = Inl (TypeError ''id'')"
    using transformedComments_null_profile [of fetched] by blast
  from a thrown show "fst (getReportById supabase id' st) = Some report"
    by (simp add: getReportById_def getComments_def throw_or_data_simps)
  from a thrown show "console (snd (getReportById supabase id' st)) =
        console st @ [(''Error fetching comments:'', TypeError ''id'')]"
    by (simp add: getReportById_def getComments_def throw_or_data_simps)
next
  show "reports (snd (getReportById supabase id' st)) = reports st"
    by (simp add: getReportById_def split: option.splits sum.splits)
qed

text \<open>
  In the loaded store there is no report 5. The backend holds one comment on report 2, as
  the query returns it, with the author's name and avatar: report 2 is read with that one
  comment, whose author has the name, no id, and the role \<^verbatim>\<open>citizen\<close>. When the backend
  cannot be reached, and when it holds a comment without a profile, report 2 is read with
  its own, empty comment list.
\<close>

theorem getReportById_cases_witness:
  "fst (getReportById (online [streetlight_issue] [a_comment_row]) ''5'' loaded_store) = None \<and>
   fst (getReportById (online [streetlight_issue] [a_comment_row]) ''2'' loaded_store) =
     Some (streetlight_report
             \<lparr>comments :=
                [\<lparr>comment_text = ''test'',
                  user = \<lparr>cu_id = None, cu_name = Some ''John Doe'', role = ''citizen''\<rparr>,
                  comment_id = ''c1'', comment_createdAt = ''2024-01-05T00:00:00Z''\<rparr>]\<rparr>) \<and>
   fst (getReportById offline ''2'' loaded_store) = Some streetlight_report \<and>
   console (snd (getReportById offline ''2'' loaded_store)) =
     [(''Error fetching comments:'', PostgrestError ''Failed to fetch'')] \<and>
   fst (getReportById (online [streetlight_issue] [a_comment_row, orphan_comment_row]) ''2''
          loaded_store) = Some streetlight_report \<and>
   console (snd (getReportById (online [streetlight_issue] [a_comment_row, orphan_comment_row])
                   ''2'' loaded_store)) =
     [(''Error fetching comments:'', TypeError ''id'')]"
proof -
  have found: "find (\<lambda>r. report_id r = ''2'') (reports loaded_store) = Some streetlight_report"
    by (simp add: loaded_store_def streetlight_report_def)
  have absent: "''5'' \<notin> set (map report_id (reports loaded_store))"
    by (simp add: loaded_store_def streetlight_report_def)
  have empty_console: "console loaded_store = []"
    by (simp add: loaded_store_def)
  have fetched: "issue_comments_select (online [streetlight_issue] [a_comment_row]) ''2'' =
      PostgrestSuccess [a_comment_row]"
    by (simp add: online_def a_comment_row_def)
  have joined: "\<forall>row \<in> set [a_comment_row]. c_user row \<noteq> None"
    by (simp add: a_comment_row_def)
  have fetched2: "issue_comments_select
      (online [streetlight_issue] [a_comment_row, orphan_comment_row]) ''2'' =
      PostgrestSuccess [a_comment_row, orphan_comment_row]"
    by (simp add: online_def a_comment_row_def orphan_comment_row_def)
  have orphan: "\<exists>row \<in> set [a_comment_row, orphan_comment_row]. c_user row = None"
    by (simp add: orphan_comment_row_def)
  have failed: "issue_comments_select offline ''2'' =
      PostgrestFailure (PostgrestError ''Failed to fetch'')"
    by (simp add: offline_def)
  have none: "fst (getReportById (online [streetlight_issue] [a_comment_row]) ''5'' loaded_store) =
      None"
    using absent
      getReportById_cases [of "''5''" loaded_store "online [streetlight_issue] [a_comment_row]"
        streetlight_report "[a_comment_row]" "PostgrestError ''Failed to fetch''"]
    by blast
  have "\<exists>cs. fst (getReportById (online [streetlight_issue] [a_comment_row]) ''2'' loaded_store) =
          Some (streetlight_report\<lparr>comments := cs\<rparr>) \<and>
        length cs = length [a_comment_row] \<and>
        (\<forall>i profile. i < length [a_comment_row] \<and> c_user ([a_comment_row] ! i) = Some profile \<longrightarrow>
           comment_id (cs ! i) = c_id ([a_comment_row] ! i) \<and>
           comment_text (cs ! i) = content ([a_comment_row] ! i) \<and>
           comment_createdAt (cs ! i) = c_created_at ([a_comment_row] ! i) \<and>
           cu_id (user (cs ! i)) = profile_get profile ''id'' \<and>
           cu_name (user (cs ! i)) = profile_get profile ''name'' \<and>
           role (user (cs ! i)) =
             (case profile_get profile ''role'' of
                None \<Rightarrow> ''citizen''
              | Some r \<Rightarrow> if r = '''' then ''citizen'' else r))"
    using found fetched joined
      getReportById_cases [of "''2''" loaded_store "online [streetlight_issue] [a_comment_row]"
        streetlight_report "[a_comment_row]" "PostgrestError ''Failed to fetch''"]
    by blast
  then obtain cs where
    result: "fst (getReportById (online [streetlight_issue] [a_comment_row]) ''2'' loaded_store) =
      Some (streetlight_report\<lparr>comments := cs\<rparr>)"
    and len: "length cs = 1"
    and each: "\<And>profile. c_user a_comment_row = Some profile \<Longrightarrow>
           comment_id (cs ! 0) = c_id a_comment_row \<and>
           comment_text (cs ! 0) = content a_comment_row \<and>
           comment_createdAt (cs ! 0) = c_created_at a_comment_row \<and>
           cu_id (user (cs ! 0)) = profile_get profile ''id'' \<and>
           cu_name (user (cs ! 0)) = profile_get profile ''name'' \<and>
           role (user (cs ! 0)) =
             (case profile_get profile ''role'' of
                None \<Rightarrow> ''citizen''
              | Some r \<Rightarrow> if r = '''' then ''citizen'' else r)"
    by fastforce
  from len obtain c where c: "cs = [c]"
    by (cases cs) auto
  have "c = \<lparr>comment_text = ''test'',
             user = \<lparr>cu_id = None, cu_name = Some ''John Doe'', role = ''citizen''\<rparr>,
             comment_id = ''c1'', comment_createdAt = ''2024-01-05T00:00:00Z''\<rparr>"
    using each [of "[(''name'', ''John Doe''), (''avatar_url'', ''https://example.com/john.png'')]"]
    by (simp add: c a_comment_row_def profile_get_def)
  with result c have fresh:
    "fst (getReportById (online [streetlight_issue] [a_comment_row]) ''2'' loaded_store) =
     Some (streetlight_report
             \<lparr>comments :=
                [\<lparr>comment_text = ''test'',
                  user = \<lparr>cu_id = None, cu_name = Some ''John Doe'', role = ''citizen''\<rparr>,
                  comment_id = ''c1'', comment_createdAt = ''2024-01-05T00:00:00Z''\<rparr>]\<rparr>)"
    by simp
  have stale: "fst (getReportById offline ''2'' loaded_store) = Some streetlight_report \<and>
      console (snd (getReportById offline ''2'' loaded_store)) =
        console loaded_store @ [(''Error fetching comments:'', PostgrestError ''Failed to fetch'')]"
    using found failed
      getReportById_cases [of "''2''" loaded_store offline
        streetlight_report "[a_comment_row]" "PostgrestError ''Failed to fetch''"]
    by blast
  have thrown: "fst (getReportById (online [streetlight_issue] [a_comment_row, orphan_comment_row])
          ''2'' loaded_store) = Some streetlight_report \<and>
      console (snd (getReportById (online [streetlight_issue] [a_comment_row, orphan_comment_row])
          ''2'' loaded_store)) =
        console loaded_store @ [(''Error fetching comments:'', TypeError ''id'')]"
    using found fetched2 orphan
      getReportById_cases [of "''2''" loaded_store
        "online [streetlight_issue] [a_comment_row, orphan_comment_row]"
        streetlight_report "[a_comment_row, orphan_comment_row]" "PostgrestError ''Failed to fetch''"]
    by blast
  show ?thesis
    using none fresh stale thrown unfolding empty_console by simp
qed

text \<open>
  A report that is present does not always come back with the fetched comments when the
  fetch succeeds. Here the fetch succeeds with one row, a comment without a profile, and
  report 2 comes back with its own comment list, which is empty.
\<close>

theorem getReportById_fetched_but_stale:
  "getComments (online [streetlight_issue] [orphan_comment_row]) ''2'' = Inr [orphan_comment_row] \<and>
   fst (getReportById (online [streetlight_issue] [orphan_comment_row]) ''2'' loaded_store) =
     Some streetlight_report \<and>
   comments streetlight_report = [] \<and>
   console (snd (getReportById (online [streetlight_issue] [orphan_comment_row]) ''2''
                   loaded_store)) =
     [(''Error fetching comments:'', TypeError ''id'')]"
  by (simp add: getReportById_def getComments_def throw_or_data_simps online_def
      orphan_comment_row_def loaded_store_def streetlight_report_def transformComment_def)

subsection \<open>Updates with falsy fields\<close>

lemma updateReport_reports:
  "issues_update supabase id' (supabaseUpdates updates) = PostgrestSuccess d \<Longrightarrow>
   reports (snd (updateReport supabase now id' updates st)) =
     map (\<lambda>report. if report_id report = id'
                    then (spread_updates report updates)\<lparr>obj_updatedAt := Some now\<rparr>
                    else object_of report)
         (reports st)"
  by (simp add: updateReport_def updateIssue_def throw_or_data_simps)

lemma supabaseUpdates_strings:
  "patch_title (supabaseUpdates updates) =
     (case upd_title updates of
        Value t \<Rightarrow> if t = '''' then None else Some t | Undefined \<Rightarrow> None | Absent \<Rightarrow> None)"
  "patch_description (supabaseUpdates updates) =
     (case upd_description updates of
        Value t \<Rightarrow> if t = '''' then None else Some t | Undefined \<Rightarrow> None | Absent \<Rightarrow> None)"
  "patch_category (supabaseUpdates updates) =
     (case upd_category updates of
        Value c \<Rightarrow> if c = '''' then None else Some (reportCategoryToIssueCategory c)
      | Undefined \<Rightarrow> None | Absent \<Rightarrow> None)"
  "patch_priority (supabaseUpdates updates) =
     (case upd_severity updates of
        Value s \<Rightarrow> if s = '''' then None else Some (reportSeverityToPriority s)
      | Undefined \<Rightarrow> None | Absent \<Rightarrow> None)"
  "patch_status (supabaseUpdates updates) =
     (case upd_status updates of
        Value s \<Rightarrow> if s = '''' then None else Some s | Undefined \<Rightarrow> None | Absent \<Rightarrow> None)"
  by (simp_all add: supabaseUpdates_def truthy_def read_def split: property.splits)

lemma supabaseUpdates_objects:
  "patch_images (supabaseUpdates updates) =
     (case upd_images updates of Value v \<Rightarrow> Some v | Undefined \<Rightarrow> None | Absent \<Rightarrow> None)"
  "patch_location (supabaseUpdates updates) =
     (case upd_location updates of
        Value l \<Rightarrow>
          Some \<lparr>latitude = lat (coordinates l), longitude = lng (coordinates l),
                issue_address = address l\<rparr>
      | Undefined \<Rightarrow> None | Absent \<Rightarrow> None)"
  by (simp_all add: supabaseUpdates_def read_def split: property.splits)

lemma spread_updates_fields:
  "obj_updatedAt ((spread_updates report updates)\<lparr>obj_updatedAt := Some now\<rparr>) = Some now"
  "obj_title ((spread_updates report updates)\<lparr>obj_updatedAt := Some now\<rparr>) =
     (case upd_title updates of
        Absent \<Rightarrow> Some (title report) | Undefined \<Rightarrow> None | Value v \<Rightarrow> Some v)"
  "obj_description ((spread_updates report updates)\<lparr>obj_updatedAt := Some now\<rparr>) =
     (case upd_description updates of
        Absent \<Rightarrow> Some (description report) | Undefined \<Rightarrow> None | Value v \<Rightarrow> Some v)"
  "obj_category ((spread_updates report updates)\<lparr>obj_updatedAt := Some now\<rparr>) =
     (case upd_category updates of
        Absent \<Rightarrow> Some (category report) | Undefined \<Rightarrow> None | Value v \<Rightarrow> Some v)"
  "obj_severity ((spread_updates report updates)\<lparr>obj_updatedAt := Some now\<rparr>) =
     (case upd_severity updates of
        Absent \<Rightarrow> Some (severity report) | Undefined \<Rightarrow> None | Value v \<Rightarrow> Some v)"
  "obj_status ((spread_updates report updates)\<lparr>obj_updatedAt := Some now\<rparr>) =
     (case upd_status updates of
        Absent \<Rightarrow> Some (status report) | Undefined \<Rightarrow> None | Value v \<Rightarrow> Some v)"
  "obj_images ((spread_updates report updates)\<lparr>obj_updatedAt := Some now\<rparr>) =
     (case upd_images updates of
        Absent \<Rightarrow> Some (images report) | Undefined \<Rightarrow> None | Value v \<Rightarrow> Some v)"
  "obj_location ((spread_updates report updates)\<lparr>obj_updatedAt := Some now\<rparr>) =
     (case upd_location updates of
        Absent \<Rightarrow> Some (location report) | Undefined \<Rightarrow> None | Value v \<Rightarrow> Some v)"
  by (simp_all add: spread_updates_def spread_def)

text \<open>
  C10. In \<^verbatim>\<open>updateReport(id, updates)\<close> the object sent to the remote
  store has a recognised string field (\<^verbatim>\<open>title\<close>, \<^verbatim>\<open>description\<close>, \<^verbatim>\<open>category\<close>,
  \<^verbatim>\<open>severity\<close>, \<^verbatim>\<open>status\<close>) exactly when the field is present in \<^verbatim>\<open>updates\<close> with a string
  that is not empty; it has \<^verbatim>\<open>images\<close> and \<^verbatim>\<open>location\<close> exactly when they are present with
  a value, and an empty array is such a value. So a field that is present but falsy, which is
  an empty string or \<^verbatim>\<open>undefined\<close>, is left out of the payload, while \<^verbatim>\<open>images: []\<close> is sent.
  When the remote update succeeds, every local report with the id gets each property that
  \<^verbatim>\<open>updates\<close> has, whatever its value, the empty string and \<^verbatim>\<open>undefined\<close> included, and
  \<^verbatim>\<open>updatedAt\<close> is the time of the call.
\<close>

theorem updateReport_falsy_field_local_only:
  "patch_title (supabaseUpdates updates) =
     (case upd_title updates of
        Value t \<Rightarrow> if t = '''' then None else Some t | Undefined \<Rightarrow> None | Absent \<Rightarrow> None) \<and>
   patch_description (supabaseUpdates updates) =
     (case upd_description updates of
        Value t \<Rightarrow> if t = '''' then None else Some t | Undefined \<Rightarrow> None | Absent \<Rightarrow> None) \<and>
   patch_category (supabaseUpdates updates) =
     (case upd_category updates of
        Value c \<Rightarrow> if c = '''' then None else Some (reportCategoryToIssueCategory c)
      | Undefined \<Rightarrow> None | Absent \<Rightarrow> None) \<and>
   patch_priority (supabaseUpdates updates) =
     (case upd_severity updates of
        Value s \<Rightarrow> if s = '''' then None else Some (reportSeverityToPriority s)
      | Undefined \<Rightarrow> None | Absent \<Rightarrow> None) \<and>
   patch_status (supabaseUpdates updates) =
     (case upd_status updates of
        Value s \<Rightarrow> if s = '''' then None else Some s | Undefined \<Rightarrow> None | Absent \<Rightarrow> None) \<and>
   patch_images (supabaseUpdates updates) =
     (case upd_images updates of Value v \<Rightarrow> Some v | Undefined \<Rightarrow> None | Absent \<Rightarrow> None) \<and>
   patch_location (supabaseUpdates updates) =
     (case upd_location updates of
        Value l \<Rightarrow>
          Some \<lparr>latitude = lat (coordinates l), longitude = lng (coordinates l),
                issue_address = address l\<rparr>
      | Undefined \<Rightarrow> None | Absent \<Rightarrow> None) \<and>
   (issues_update supabase id' (supabaseUpdates updates) = PostgrestSuccess d \<and>
    i < length (reports st) \<and> report_id (reports st ! i) = id' \<longrightarrow>
      length (reports (snd (updateReport supabase now id' updates st))) = length (reports st) \<and>
      obj_updatedAt (reports (snd (updateReport supabase now id' updates st)) ! i) = Some now \<and>
      obj_title (reports (snd (updateReport supabase now id' updates st)) ! i) =
        (case upd_title updates of
           Absent \<Rightarrow> Some (title (reports st ! i)) | Undefined \<Rightarrow> None | Value v \<Rightarrow> Some v) \<and>
      obj_description (reports (snd (updateReport supabase now id' updates st)) ! i) =
        (case upd_description updates of
           Absent \<Rightarrow> Some (description (reports st ! i)) | Undefined \<Rightarrow> None
         | Value v \<Rightarrow> Some v) \<and>
      obj_category (reports (snd (updateReport supabase now id' updates st)) ! i) =
        (case upd_category updates of
           Absent \<Rightarrow> Some (category (reports st ! i)) | Undefined \<Rightarrow> None
         | Value v \<Rightarrow> Some v) \<and>
      obj_severity (reports (snd (updateReport supabase now id' updates st)) ! i) =
        (case upd_severity updates of
           Absent \<Rightarrow> Some (severity (reports st ! i)) | Undefined \<Rightarrow> None
         | Value v \<Rightarrow> Some v) \<and>
      obj_status (reports (snd (updateReport supabase now id' updates st)) ! i) =
        (case upd_status updates of
           Absent \<Rightarrow> Some (status (reports st ! i)) | Undefined \<Rightarrow> None | Value v \<Rightarrow> Some v) \<and>
      obj_images (reports (snd (updateReport supabase now id' updates st)) ! i) =
        (case upd_images updates of
           Absent \<Rightarrow> Some (images (reports st ! i)) | Undefined \<Rightarrow> None | Value v \<Rightarrow> Some v) \<and>
      obj_location (reports (snd (updateReport supabase now id' updates st)) ! i) =
        (case upd_location updates of
           Absent \<Rightarrow> Some (location (reports st ! i)) | Undefined \<Rightarrow> None
         | Value v \<Rightarrow> Some v))"
proof -
  have merged:
    "length (reports (snd (updateReport supabase now id' updates st))) = length (reports st) \<and>
     reports (snd (updateReport supabase now id' updates st)) ! i =
       (spread_updates (reports st ! i) updates)\<lparr>obj_updatedAt := Some now\<rparr>"
    if "issues_update supabase id' (supabaseUpdates updates) = PostgrestSuccess d \<and>
        i < length (reports st) \<and> report_id (reports st ! i) = id'"
    using that by (simp add: updateReport_reports)
  show ?thesis
  proof (intro conjI impI)
    assume ok: "issues_update supabase id' (supabaseUpdates updates) = PostgrestSuccess d \<and>
        i < length (reports st) \<and> report_id (reports st ! i) = id'"
    note at_i = merged [OF ok, THEN conjunct2]
    show "length (reports (snd (updateReport supabase now id' updates st))) = length (reports st)"
      using merged [OF ok] by blast
    show "obj_updatedAt (reports (snd (updateReport supabase now id' updates st)) ! i) = Some now"
      unfolding at_i by (rule spread_updates_fields)
    show "obj_title (reports (snd (updateReport supabase now id' updates st)) ! i) =
        (case upd_title updates of
           Absent \<Rightarrow> Some (title (reports st ! i)) | Undefined \<Rightarrow> None | Value v \<Rightarrow> Some v)"
      unfolding at_i by (rule spread_updates_fields)
    show "obj_description (reports (snd (updateReport supabase now id' updates st)) ! i) =
        (case upd_description updates of
           Absent \<Rightarrow> Some (description (reports st ! i)) | Undefined \<Rightarrow> None
         | Value v \<Rightarrow> Some v)"
      unfolding at_i by (rule spread_updates_fields)
    show "obj_category (reports (snd (updateReport supabase now id' updates st)) ! i) =
        (case upd_category updates of
           Absent \<Rightarrow> Some (category (reports st ! i)) | Undefined \<Rightarrow> None
         | Value v \<Rightarrow> Some v)"
      unfolding at_i by (rule spread_updates_fields)
    show "obj_severity (reports (snd (updateReport supabase now id' updates st)) ! i) =
        (case upd_severity updates of
           Absent \<Rightarrow> Some (severity (reports st ! i)) | Undefined \<Rightarrow> None
         | Value v \<Rightarrow> Some v)"
      unfolding at_i by (rule spread_updates_fields)
    show "obj_status (reports (snd (updateReport supabase now id' updates st)) ! i) =
        (case upd_status updates of
           Absent \<Rightarrow> Some (status (reports st ! i)) | Undefined \<Rightarrow> None | Value v \<Rightarrow> Some v)"
      unfolding at_i by (rule spread_updates_fields)
    show "obj_images (reports (snd (updateReport supabase now id' updates st)) ! i) =
        (case upd_images updates of
           Absent \<Rightarrow> Some (images (reports st ! i)) | Undefined \<Rightarrow> None | Value v \<Rightarrow> Some v)"
      unfolding at_i by (rule spread_updates_fields)
    show "obj_location (reports (snd (updateReport supabase now id' updates st)) ! i) =
        (case upd_location updates of
           Absent \<Rightarrow> Some (location (reports st ! i)) | Undefined \<Rightarrow> None
         | Value v \<Rightarrow> Some v)"
      unfolding at_i by (rule spread_updates_fields)
  qed (rule supabaseUpdates_strings supabaseUpdates_objects)+
qed

text \<open>
  The update \<^verbatim>\<open>{title: '', images: undefined}\<close> of report 2: the payload has neither a
  title nor images, the backend that holds the row accepts the update, and afterwards the
  local title is the empty string and the local images are \<^verbatim>\<open>undefined\<close>.
\<close>

theorem updateReport_falsy_field_local_only_witness:
  "patch_title (supabaseUpdates (no_updates\<lparr>upd_title := Value '''', upd_images := Undefined\<rparr>)) =
     None \<and>
   patch_images (supabaseUpdates (no_updates\<lparr>upd_title := Value '''', upd_images := Undefined\<rparr>)) =
     None \<and>
   title (reports loaded_store ! 0) = ''Broken streetlight on Oak Avenue'' \<and>
   images (reports loaded_store ! 0) = [''https://example.com/streetlight1.jpg''] \<and>
   obj_title (reports (snd (updateReport (online [streetlight_issue] []) ''2024-01-06T00:00:00Z''
     ''2'' (no_updates\<lparr>upd_title := Value '''', upd_images := Undefined\<rparr>) loaded_store)) ! 0) =
     Some '''' \<and>
   obj_images (reports (snd (updateReport (online [streetlight_issue] []) ''2024-01-06T00:00:00Z''
     ''2'' (no_updates\<lparr>upd_title := Value '''', upd_images := Undefined\<rparr>) loaded_store)) ! 0) =
     None \<and>
   obj_updatedAt (reports (snd (updateReport (online [streetlight_issue] [])
     ''2024-01-06T00:00:00Z'' ''2''
     (no_updates\<lparr>upd_title := Value '''', upd_images := Undefined\<rparr>) loaded_store)) ! 0) =
     Some ''2024-01-06T00:00:00Z''"
proof -
  let ?updates = "no_updates\<lparr>upd_title := Value '''', upd_images := Undefined\<rparr>"
  have falsy: "upd_title ?updates = Value ''''" "upd_images ?updates = Undefined"
    by simp_all
  have accepted: "issues_update (online [streetlight_issue] []) ''2'' (supabaseUpdates ?updates) =
      PostgrestSuccess (patched streetlight_issue (supabaseUpdates ?updates))"
    by (simp add: online_def streetlight_issue_def stored_def)
  have present: "0 < length (reports loaded_store)" "report_id (reports loaded_store ! 0) = ''2''"
    by (simp_all add: loaded_store_def streetlight_report_def)
  have before: "title (reports loaded_store ! 0) = ''Broken streetlight on Oak Avenue''"
    "images (reports loaded_store ! 0) = [''https://example.com/streetlight1.jpg'']"
    by (simp_all add: loaded_store_def streetlight_report_def)
  note at_this = updateReport_falsy_field_local_only [of ?updates
      "online [streetlight_issue] []" "''2''"
      "patched streetlight_issue (supabaseUpdates ?updates)"
      0 loaded_store "''2024-01-06T00:00:00Z''"]
  have payload: "patch_title (supabaseUpdates ?updates) = None"
    "patch_images (supabaseUpdates ?updates) = None"
    using at_this unfolding falsy by simp_all
  have merged: "obj_title (reports (snd (updateReport (online [streetlight_issue] [])
        ''2024-01-06T00:00:00Z'' ''2'' ?updates loaded_store)) ! 0) = Some ''''"
    "obj_images (reports (snd (updateReport (online [streetlight_issue] [])
        ''2024-01-06T00:00:00Z'' ''2'' ?updates loaded_store)) ! 0) = None"
    "obj_updatedAt (reports (snd (updateReport (online [streetlight_issue] [])
        ''2024-01-06T00:00:00Z'' ''2'' ?updates loaded_store)) ! 0) = Some ''2024-01-06T00:00:00Z''"
    using at_this accepted present unfolding falsy by simp_all
  show ?thesis
    using payload before merged by simp
qed

text \<open>
  \<^verbatim>\<open>images\<close> set to an empty value is not among the fields that are left out of the
  payload. For the update \<^verbatim>\<open>{images: []}\<close>, which the edit form sends when there is no image,
  the payload has \<^verbatim>\<open>images\<close>, the empty array.
\<close>

theorem updateReport_sends_empty_images:
  "patch_images (supabaseUpdates (no_updates\<lparr>upd_images := Value []\<rparr>)) = Some [] \<and>
   supabaseUpdates (no_updates\<lparr>upd_images := Value []\<rparr>) =
     \<lparr>patch_title = None, patch_description = None, patch_category = None,
      patch_priority = None, patch_location = None, patch_images = Some [],
      patch_status = None\<rparr>"
  by (simp add: supabaseUpdates_def no_updates_def read_def truthy_def)

lemma report_of_object_of: "report_of (object_of report) = Some report"
  by (simp add: report_of_def object_of_def)

section \<open>Further properties\<close>

text \<open>
  The operations that work on the local collection keep the vote invariant:
  \<^verbatim>\<open>upvoteReport\<close> adds a user who is not yet in \<^verbatim>\<open>upvotedBy\<close> and counts one more vote,
  \<^verbatim>\<open>addComment\<close> touches neither field, \<^verbatim>\<open>deleteReport\<close> only removes reports, and
  \<^verbatim>\<open>getReportById\<close> leaves the collection alone.
\<close>

lemma votes_consistent_upvote_one:
  "votes_consistent report \<Longrightarrow> votes_consistent (upvote_one now id' userId report)"
  by (simp add: votes_consistent_def upvote_one_def)

theorem local_operations_keep_vote_invariant:
  "store_invariant st \<longrightarrow>
     store_invariant (snd (upvoteReport supabase now id' userId st)) \<and>
     store_invariant (snd (addComment supabase now id' commentData st)) \<and>
     store_invariant (snd (deleteReport supabase id' st)) \<and>
     store_invariant (snd (getReportById supabase id' st))"
proof
  assume inv: "store_invariant st"
  then have all: "\<And>r. r \<in> set (reports st) \<Longrightarrow> votes_consistent r"
    by (simp add: store_invariant_def list_all_iff)
  have up: "store_invariant (snd (upvoteReport supabase now id' userId st))"
    using all by (simp add: store_invariant_def list_all_iff upvoteReport_reports
        votes_consistent_upvote_one)
  have com: "store_invariant (snd (addComment supabase now id' commentData st))"
    using all by (auto simp: store_invariant_def list_all_iff addComment_def votes_consistent_def
        split: sum.splits)
  have del: "store_invariant (snd (deleteReport supabase id' st))"
    using all by (auto simp: store_invariant_def list_all_iff deleteReport_def split: sum.splits)
  have get: "store_invariant (snd (getReportById supabase id' st))"
    using inv by (simp add: store_invariant_def getReportById_def split: option.splits sum.splits)
  from up com del get
  show "store_invariant (snd (upvoteReport supabase now id' userId st)) \<and>
     store_invariant (snd (addComment supabase now id' commentData st)) \<and>
     store_invariant (snd (deleteReport supabase id' st)) \<and>
     store_invariant (snd (getReportById supabase id' st))"
    by blast
qed

theorem local_operations_keep_vote_invariant_witness:
  "store_invariant loaded_store \<and>
   store_invariant (snd (upvoteReport offline ''2024-01-06T00:00:00Z'' ''2'' ''9'' loaded_store)) \<and>
   store_invariant (snd (addComment (online [streetlight_issue] []) ''2024-01-06T00:00:00Z'' ''2''
                           a_comment loaded_store)) \<and>
   store_invariant (snd (deleteReport (online [streetlight_issue] []) ''2'' loaded_store)) \<and>
   store_invariant (snd (getReportById (online [streetlight_issue] []) ''2'' loaded_store))"
proof -
  have inv: "store_invariant loaded_store"
    by (simp add: store_invariant_def votes_consistent_def loaded_store_def streetlight_report_def)
  show ?thesis
    using inv
      local_operations_keep_vote_invariant [of loaded_store offline "''2024-01-06T00:00:00Z''"
        "''2''" "''9''" a_comment]
      local_operations_keep_vote_invariant [of loaded_store "online [streetlight_issue] []"
        "''2024-01-06T00:00:00Z''" "''2''" "''9''" a_comment]
    by blast
qed

text \<open>
  What a fetch reads back from a row that a create has stored: the severity of the draft,
  when it is one of the three local severities, and the remote image of the draft's category.
\<close>

theorem severity_round_trip:
  "(severity report \<in> set ReportSeverity_values \<longrightarrow>
      severity (formatReport (stored new_id ts (supabaseIssue report))) = severity report) \<and>
   category (formatReport (stored new_id ts (supabaseIssue report))) =
     reportCategoryToIssueCategory (category report)"
  by (auto simp: formatReport_def stored_def supabaseIssue_def reportSeverityToPriority_def
      ReportSeverity_values_def)

theorem severity_round_trip_witness:
  "severity streetlight_draft \<in> set ReportSeverity_values \<and>
   severity (formatReport (stored ''7'' ''2024-01-04T00:00:00Z'' (supabaseIssue streetlight_draft))) =
     ''medium''"
proof -
  have sev: "severity streetlight_draft = ''medium''"
    by (simp add: streetlight_draft_def)
  have known: "severity streetlight_draft \<in> set ReportSeverity_values"
    by (simp add: sev ReportSeverity_values_def)
  show ?thesis
    using known severity_round_trip [of streetlight_draft "''7''" "''2024-01-04T00:00:00Z''"]
    by (simp add: sev)
qed

end
